theory Spec2Isabelle
  imports Main "HOL-Library.Sublist"
begin

section \<open>Data model (shared/types/database.ts, shared/types/workout-session.ts)\<close>

text \<open>
  Conventions of the embedding.
  \<^item> A JavaScript \<open>number\<close> is modelled at its integer values (\<open>int\<close>); fractional values
    are outside the model. The sums and products of \<open>getStats\<close> are rounded as IEEE-754
    double arithmetic rounds them (\<open>to_double\<close>). List lengths and the counters derived
    from them (\<open>orderIndex\<close>, \<open>setNumber\<close>) are \<open>nat\<close>.
  \<^item> A timestamp (\<open>new Date().toISOString()\<close>, read back with \<open>new Date(s).getTime()\<close>) is the
    number of milliseconds it denotes. One operation reads the clock once (\<open>now\<close>).
  \<^item> An optional field (\<open>f?: T\<close>, \<open>T | null\<close>) is a \<open>T option\<close>.
  \<^item> Record fields keep the source's names; a name used by several interfaces, or by a HOL
    constant, carries the interface as a prefix.
  \<^item> The fields \<open>currentExerciseIndex\<close>, \<open>currentSetNumber\<close>, \<open>totalDuration\<close> of
    \<open>WorkoutSession\<close> and the \<open>id\<close> of a set or session exercise are never read or written by
    the modelled code and are left out.
\<close>

type_synonym timestamp = int

datatype workout_status = In_progress | Completed | Cancelled

text \<open>
  \<open>Exercise.muscle_groups\<close> is a string holding a JSON array. The model stores what
  \<open>JSON.parse\<close> makes of that string: \<open>None\<close> when \<open>JSON.parse\<close> throws, \<open>Some gs\<close> for the
  array of names it yields.
\<close>

record Exercise =
  exercise_id :: int
  exercise_name :: string
  muscle_groups :: "string list option"
  equipment :: "string option"
  instructions :: "string option"

record Workout =
  workout_id :: int
  workout_name :: "string option"
  workout_notes :: "string option"
  workout_started_at :: timestamp
  workout_completed_at :: "timestamp option"
  workout_status :: workout_status
  workout_template_id :: "int option"
  workout_created_at :: timestamp
  workout_updated_at :: timestamp

record WorkoutSet =
  setNumber :: nat
  reps :: "int option"
  weight :: "int option"
  set_duration :: "int option"
  distance :: "int option"
  rir :: "int option"
  rpe :: "int option"
  set_notes :: "string option"
  completed :: bool
  completedAt :: "timestamp option"
  set_createdAt :: timestamp

record WorkoutExerciseSession =
  exercise :: Exercise
  orderIndex :: nat
  targetSets :: "int option"
  targetReps :: "int option"
  targetWeight :: "int option"
  targetDuration :: "int option"
  restDuration :: "int option"
  exercise_notes :: "string option"
  sets :: "WorkoutSet list"
  restStartTime :: "timestamp option"
  lastSetCompletedAt :: "timestamp option"
  createdAt :: timestamp

record WorkoutSession =
  session_id :: "int option"
  name :: "string option"
  session_notes :: "string option"
  started_at :: timestamp
  completed_at :: "timestamp option"
  status :: workout_status
  template_id :: "int option"
  created_at :: timestamp
  updated_at :: timestamp
  exercises :: "WorkoutExerciseSession list"
  isAutoSaving :: bool
  lastSavedAt :: "timestamp option"
  sessionStartTime :: timestamp
  pausedTime :: "int option"
  isPaused :: bool

record AddExerciseOptions =
  opt_targetSets :: "int option"
  opt_targetReps :: "int option"
  opt_targetWeight :: "int option"
  opt_targetDuration :: "int option"
  opt_restDuration :: "int option"
  opt_notes :: "string option"

record CompleteSetData =
  data_reps :: "int option"
  data_weight :: "int option"
  data_duration :: "int option"
  data_distance :: "int option"
  data_rir :: "int option"
  data_rpe :: "int option"
  data_notes :: "string option"

record WorkoutSessionStats =
  totalDuration :: int
  totalSets :: int
  completedSets :: int
  totalReps :: int
  totalWeight :: int
  exerciseCount :: int
  averageRestTime :: int

section \<open>The hook's state and its collaborators (shared/hooks/useWorkoutSession.ts)\<close>

text \<open>
  What \<open>JSON.parse\<close> makes of the string stored under \<open>AUTOSAVE_KEY\<close>: it throws
  (\<open>Malformed\<close>) or yields the session that \<open>JSON.stringify\<close> wrote (\<open>Saved\<close>).
\<close>

datatype snapshot = Malformed | Saved WorkoutSession

text \<open>
  The state of one hook instance (\<open>useState\<close> and \<open>useRef\<close> cells) together with the two
  stores it writes: the \<open>AsyncStorage\<close> slot \<open>active_workout\<close> and the rows of the
  \<open>workouts\<close> table. An interval cell holds what the running callback captured
  (\<open>sessionData\<close>; for the rest countdown \<open>exerciseIndex\<close> and \<open>timeRemaining\<close>), \<open>None\<close> when
  no interval runs. The actions run one after the other: each sees the state the previous
  one left, and an \<open>await\<close> is over before the next statement runs.
\<close>

record hook =
  session :: "WorkoutSession option"
  isLoading :: bool
  error :: "string option"
  duration :: int
  currentRest :: "(int \<times> int) option"
  autoSaveInterval :: "WorkoutSession option"
  durationInterval :: "WorkoutSession option"
  restInterval :: "(int \<times> int) option"
  storage :: "snapshot option"
  workouts :: "Workout list"

text \<open>
  What the outside world answers during one operation: the clock, whether
  \<open>DatabaseService.executeSql\<close> rejects (with an error printing as the given text), the
  \<open>insertId\<close> of an \<open>INSERT\<close>, whether an \<open>AsyncStorage\<close> call resolves, and the rows of the
  \<open>exercises\<close> table.
\<close>

record env =
  now :: timestamp
  sql_error :: "string option"
  insertId :: int
  storage_ok :: bool
  catalog :: "Exercise list"

text \<open>\<open>x || d\<close> on an optional number: \<open>undefined\<close> and \<open>0\<close> are falsy.\<close>

definition num_or :: "int option \<Rightarrow> int \<Rightarrow> int" where
  "num_or x d = (case x of None \<Rightarrow> d | Some v \<Rightarrow> if v = 0 then d else v)"

text \<open>\<open>x || y\<close> on optional strings: \<open>undefined\<close>, \<open>null\<close> and the empty string are falsy.\<close>

definition str_or :: "string option \<Rightarrow> string option \<Rightarrow> string option" where
  "str_or x y = (case x of None \<Rightarrow> y | Some v \<Rightarrow> if v = [] then y else Some v)"

text \<open>\<open>templateId || null\<close>.\<close>

definition id_or_null :: "int option \<Rightarrow> int option" where
  "id_or_null x = (case x of None \<Rightarrow> None | Some v \<Rightarrow> if v = 0 then None else Some v)"

definition initial :: "snapshot option \<Rightarrow> Workout list \<Rightarrow> hook" where
  "initial stor rows =
     \<lparr>session = None, isLoading = False, error = None, duration = 0, currentRest = None,
      autoSaveInterval = None, durationInterval = None, restInterval = None,
      storage = stor, workouts = rows\<rparr>"

subsection \<open>Repositories (shared/services)\<close>

text \<open>
  \<open>WorkoutRepository.create\<close>: the \<open>INSERT\<close> adds a row; a rejected statement and a falsy
  \<open>insertId\<close> both end in \<open>Error('Failed to create workout: ...')\<close>, and then no row counts
  as written.
\<close>

definition WorkoutRepository_create ::
  "env \<Rightarrow> timestamp \<Rightarrow> int option \<Rightarrow> Workout list \<Rightarrow> string + (Workout \<times> Workout list)" where
  "WorkoutRepository_create e started tid rows =
     (case sql_error e of
        Some m \<Rightarrow> Inl (''Error: Failed to create workout: '' @ m)
      | None \<Rightarrow>
          (let w = \<lparr>workout_id = insertId e, workout_name = None, workout_notes = None,
                    workout_started_at = started, workout_completed_at = None,
                    workout_status = In_progress, workout_template_id = tid,
                    workout_created_at = now e, workout_updated_at = now e\<rparr>
           in if insertId e = 0
              then Inl ''Error: Failed to create workout: Error: Failed to create workout''
              else Inr (w, rows @ [w])))"

text \<open>
  \<open>WorkoutRepository.update\<close> as the hook calls it: \<open>status\<close> always given, \<open>completed_at\<close>
  and \<open>notes\<close> when completing (\<open>notes\<close> is skipped when \<open>undefined\<close>, written when \<open>null\<close> or a
  string). The boolean it returns is ignored by the hook.
\<close>

definition WorkoutRepository_update ::
  "env \<Rightarrow> int \<Rightarrow> workout_status \<Rightarrow> timestamp option \<Rightarrow> string option option \<Rightarrow> Workout list
   \<Rightarrow> string + Workout list" where
  "WorkoutRepository_update e i st fin nts rows =
     (case sql_error e of
        Some m \<Rightarrow> Inl (''Error: Failed to update workout: '' @ m)
      | None \<Rightarrow>
          Inr (map (\<lambda>w. if workout_id w = i
                         then w\<lparr>workout_status := st,
                               workout_completed_at := (case fin of None \<Rightarrow> workout_completed_at w
                                                        | Some t \<Rightarrow> Some t),
                               workout_notes := (case nts of None \<Rightarrow> workout_notes w | Some n \<Rightarrow> n),
                               workout_updated_at := now e\<rparr>
                         else w) rows))"

definition ExerciseRepository_findById :: "env \<Rightarrow> int \<Rightarrow> string + Exercise option" where
  "ExerciseRepository_findById e i =
     (case sql_error e of
        Some m \<Rightarrow> Inl (''Error: Failed to find exercise: '' @ m)
      | None \<Rightarrow> Inr (case filter (\<lambda>x. exercise_id x = i) (catalog e) of
                      [] \<Rightarrow> None | x # _ \<Rightarrow> Some x))"

definition ExerciseRepository_findAll :: "env \<Rightarrow> string + Exercise list" where
  "ExerciseRepository_findAll e =
     (case sql_error e of
        Some m \<Rightarrow> Inl (''Error: Failed to get exercises: '' @ m)
      | None \<Rightarrow> Inr (catalog e))"

subsection \<open>Persistence and timers\<close>

definition saveToStorage :: "env \<Rightarrow> WorkoutSession \<Rightarrow> hook \<Rightarrow> hook" where
  "saveToStorage e sessionData h =
     (if storage_ok e
      then h\<lparr>storage := Some (Saved sessionData),
             session := map_option (\<lambda>prev. prev\<lparr>lastSavedAt := Some (now e)\<rparr>) (session h)\<rparr>
      else h)"

definition clearStorage :: "env \<Rightarrow> hook \<Rightarrow> hook" where
  "clearStorage e h = (if storage_ok e then h\<lparr>storage := None\<rparr> else h)"

definition startIntervals :: "WorkoutSession \<Rightarrow> hook \<Rightarrow> hook" where
  "startIntervals sessionData h =
     h\<lparr>autoSaveInterval := Some sessionData, durationInterval := Some sessionData\<rparr>"

definition stopIntervals :: "hook \<Rightarrow> hook" where
  "stopIntervals h = h\<lparr>autoSaveInterval := None, durationInterval := None, restInterval := None\<rparr>"

text \<open>The callback of the auto-save interval, fired once.\<close>

definition autoSaveTick :: "env \<Rightarrow> hook \<Rightarrow> hook" where
  "autoSaveTick e h =
     (case autoSaveInterval h of
        None \<Rightarrow> h
      | Some sessionData \<Rightarrow>
          if status sessionData = In_progress then saveToStorage e sessionData h else h)"

text \<open>The callback of the duration interval, fired once at clock value \<open>t\<close>.\<close>

definition durationTick :: "timestamp \<Rightarrow> hook \<Rightarrow> hook" where
  "durationTick t h =
     (case durationInterval h of
        None \<Rightarrow> h
      | Some sessionData \<Rightarrow>
          if status sessionData = In_progress \<and> \<not> isPaused sessionData
          then h\<lparr>duration := (t - sessionStartTime sessionData) div 1000
                               - num_or (pausedTime sessionData) 0\<rparr>
          else h)"

subsection \<open>Actions of the hook\<close>

definition startWorkout :: "env \<Rightarrow> int option \<Rightarrow> hook \<Rightarrow> hook" where
  "startWorkout e templateId h =
     (let h1 = h\<lparr>isLoading := True, error := None\<rparr>
      in case WorkoutRepository_create e (now e) (id_or_null templateId) (workouts h1) of
           Inl err \<Rightarrow> h1\<lparr>error := Some (''Failed to start workout: '' @ err), isLoading := False\<rparr>
         | Inr (workout, rows) \<Rightarrow>
             (let newSession =
                    \<lparr>session_id = Some (workout_id workout), name = workout_name workout,
                     session_notes = workout_notes workout,
                     started_at = workout_started_at workout, completed_at = None,
                     status = In_progress, template_id = workout_template_id workout,
                     created_at = workout_created_at workout,
                     updated_at = workout_updated_at workout, exercises = [],
                     isAutoSaving = False, lastSavedAt = None, sessionStartTime = now e,
                     pausedTime = None, isPaused = False\<rparr>;
                  h2 = h1\<lparr>workouts := rows, session := Some newSession\<rparr>;
                  h3 = startIntervals newSession h2;
                  h4 = saveToStorage e newSession h3
              in h4\<lparr>isLoading := False\<rparr>))"

text \<open>The object literal \<open>newExerciseSession\<close> of \<open>addExercise\<close>; \<open>n\<close> is \<open>session.exercises.length\<close>.\<close>

definition newExerciseSession ::
  "env \<Rightarrow> Exercise \<Rightarrow> AddExerciseOptions \<Rightarrow> nat \<Rightarrow> WorkoutExerciseSession" where
  "newExerciseSession e ex options n =
     \<lparr>exercise = ex, orderIndex = n,
      targetSets = Some (num_or (opt_targetSets options) 3),
      targetReps = opt_targetReps options,
      targetWeight = opt_targetWeight options,
      targetDuration = opt_targetDuration options,
      restDuration = Some (num_or (opt_restDuration options) 60),
      exercise_notes = opt_notes options, sets = [],
      restStartTime = None, lastSetCompletedAt = None,
      createdAt = now e\<rparr>"

definition addExercise :: "env \<Rightarrow> int \<Rightarrow> AddExerciseOptions \<Rightarrow> hook \<Rightarrow> hook" where
  "addExercise e exerciseId options h =
     (case session h of
        None \<Rightarrow> h\<lparr>error := Some ''No active workout session''\<rparr>
      | Some s \<Rightarrow>
          (let h1 = h\<lparr>isLoading := True\<rparr>
           in case ExerciseRepository_findById e exerciseId of
                Inl err \<Rightarrow>
                  h1\<lparr>error := Some (''Failed to add exercise: '' @ err), isLoading := False\<rparr>
              | Inr None \<Rightarrow>
                  h1\<lparr>error := Some ''Failed to add exercise: Error: Exercise not found'',
                     isLoading := False\<rparr>
              | Inr (Some ex) \<Rightarrow>
                  (let updatedSession =
                         s\<lparr>exercises :=
                             exercises s @ [newExerciseSession e ex options (length (exercises s))],
                           updated_at := now e\<rparr>;
                       h2 = h1\<lparr>session := Some updatedSession\<rparr>;
                       h3 = saveToStorage e updatedSession h2
                   in h3\<lparr>isLoading := False\<rparr>)))"

text \<open>The object literal \<open>newSet\<close> of \<open>completeSet\<close>; \<open>k\<close> is \<open>exercise.sets.length + 1\<close>.\<close>

definition newSet :: "env \<Rightarrow> CompleteSetData \<Rightarrow> nat \<Rightarrow> WorkoutSet" where
  "newSet e setData k =
     \<lparr>setNumber = k, reps = data_reps setData,
      weight = data_weight setData, set_duration = data_duration setData,
      distance = data_distance setData, rir = data_rir setData,
      rpe = data_rpe setData, set_notes = data_notes setData,
      completed = True, completedAt = Some (now e), set_createdAt = now e\<rparr>"

text \<open>
  \<open>session.exercises[exerciseIndex]\<close> is \<open>undefined\<close> (falsy) outside \<open>0 .. length - 1\<close>; an
  element of the list is an object and truthy.
\<close>

definition completeSet :: "env \<Rightarrow> int \<Rightarrow> CompleteSetData \<Rightarrow> hook \<Rightarrow> hook" where
  "completeSet e exerciseIndex setData h =
     (case session h of
        None \<Rightarrow> h\<lparr>error := Some ''Invalid exercise or session''\<rparr>
      | Some s \<Rightarrow>
          if \<not> (0 \<le> exerciseIndex \<and> exerciseIndex < int (length (exercises s)))
          then h\<lparr>error := Some ''Invalid exercise or session''\<rparr>
          else
            (let ex = exercises s ! nat exerciseIndex;
                 updatedExercises =
                   (exercises s)[nat exerciseIndex :=
                      ex\<lparr>sets := sets ex @ [newSet e setData (length (sets ex) + 1)],
                         lastSetCompletedAt := Some (now e)\<rparr>];
                 updatedSession = s\<lparr>exercises := updatedExercises, updated_at := now e\<rparr>;
                 h1 = h\<lparr>session := Some updatedSession\<rparr>
             in saveToStorage e updatedSession h1))"

text \<open>
  \<open>startRest\<close>: \<open>!exercise?.restDuration\<close> returns at once for a missing exercise and for a
  rest duration that is \<open>undefined\<close> or \<open>0\<close>. The interval callback keeps its own
  \<open>timeRemaining\<close>.
\<close>

definition startRest :: "env \<Rightarrow> int \<Rightarrow> hook \<Rightarrow> hook" where
  "startRest e exerciseIndex h =
     (case session h of
        None \<Rightarrow> h
      | Some s \<Rightarrow>
          if \<not> (0 \<le> exerciseIndex \<and> exerciseIndex < int (length (exercises s))) then h
          else
            (let ex = exercises s ! nat exerciseIndex
             in case restDuration ex of
                  None \<Rightarrow> h
                | Some d \<Rightarrow>
                    if d = 0 then h
                    else h\<lparr>session :=
                             Some (s\<lparr>exercises := (exercises s)[nat exerciseIndex :=
                                        ex\<lparr>restStartTime := Some (now e)\<rparr>]\<rparr>),
                           currentRest := Some (exerciseIndex, d),
                           restInterval := Some (exerciseIndex, d)\<rparr>))"

definition restTick :: "hook \<Rightarrow> hook" where
  "restTick h =
     (case restInterval h of
        None \<Rightarrow> h
      | Some (exerciseIndex, timeRemaining) \<Rightarrow>
          if timeRemaining - 1 \<le> 0
          then h\<lparr>currentRest := None, restInterval := None\<rparr>
          else h\<lparr>currentRest := Some (exerciseIndex, timeRemaining - 1),
                 restInterval := Some (exerciseIndex, timeRemaining - 1)\<rparr>)"

definition skipRest :: "hook \<Rightarrow> hook" where
  "skipRest h = h\<lparr>currentRest := None, restInterval := None\<rparr>"

text \<open>\<open>pauseWorkout: () => {}, // TODO: Implement\<close> and the same for \<open>resumeWorkout\<close>.\<close>

definition pauseWorkout :: "hook \<Rightarrow> hook" where
  "pauseWorkout h = h"

definition resumeWorkout :: "hook \<Rightarrow> hook" where
  "resumeWorkout h = h"

text \<open>\<open>!session?.id\<close>: no session, no id, or the id \<open>0\<close>.\<close>

definition session_with_id :: "hook \<Rightarrow> (WorkoutSession \<times> int) option" where
  "session_with_id h =
     (case session h of
        None \<Rightarrow> None
      | Some s \<Rightarrow> (case session_id s of
                     None \<Rightarrow> None
                   | Some i \<Rightarrow> if i = 0 then None else Some (s, i)))"

definition completeWorkout :: "env \<Rightarrow> string option \<Rightarrow> hook \<Rightarrow> hook" where
  "completeWorkout e nts h =
     (case session_with_id h of
        None \<Rightarrow> h\<lparr>error := Some ''No active workout to complete''\<rparr>
      | Some (s, i) \<Rightarrow>
          (let h1 = h\<lparr>isLoading := True\<rparr>
           in case WorkoutRepository_update e i Completed (Some (now e))
                     (Some (str_or nts (session_notes s))) (workouts h1) of
                Inl err \<Rightarrow>
                  h1\<lparr>error := Some (''Failed to complete workout: '' @ err), isLoading := False\<rparr>
              | Inr rows \<Rightarrow>
                  (let completedSession =
                         s\<lparr>completed_at := Some (now e), status := Completed,
                           session_notes := str_or nts (session_notes s),
                           updated_at := now e\<rparr>;
                       h2 = h1\<lparr>workouts := rows, session := Some completedSession\<rparr>;
                       h3 = stopIntervals h2;
                       h4 = clearStorage e h3
                   in h4\<lparr>isLoading := False\<rparr>)))"

definition cancelWorkout :: "env \<Rightarrow> hook \<Rightarrow> hook" where
  "cancelWorkout e h =
     (case session_with_id h of
        None \<Rightarrow> h
      | Some (s, i) \<Rightarrow>
          (case WorkoutRepository_update e i Cancelled None None (workouts h) of
             Inl err \<Rightarrow> h\<lparr>error := Some (''Failed to cancel workout: '' @ err)\<rparr>
           | Inr rows \<Rightarrow>
               (let h1 = stopIntervals (h\<lparr>workouts := rows\<rparr>);
                    h2 = clearStorage e h1
                in h2\<lparr>session := None, duration := 0, currentRest := None\<rparr>)))"

text \<open>
  \<open>recoverWorkout\<close>: a rejected \<open>getItem\<close> and a throwing \<open>JSON.parse\<close> are caught and
  logged; an empty slot is skipped.
\<close>

definition recoverWorkout :: "env \<Rightarrow> hook \<Rightarrow> hook" where
  "recoverWorkout e h =
     (if \<not> storage_ok e then h
      else case storage h of
             None \<Rightarrow> h
           | Some Malformed \<Rightarrow> h
           | Some (Saved recoveredSession) \<Rightarrow>
               (let h1 = h\<lparr>session := Some recoveredSession\<rparr>
                in if status recoveredSession = In_progress
                   then startIntervals recoveredSession h1 else h1))"

text \<open>A hook instance is mounted: the \<open>useEffect\<close> that calls \<open>recoverWorkout\<close> runs once.\<close>

definition mount :: "env \<Rightarrow> snapshot option \<Rightarrow> Workout list \<Rightarrow> hook" where
  "mount e stor rows = recoverWorkout e (initial stor rows)"

text \<open>\<open>isActive: session?.status === 'in_progress'\<close>.\<close>

definition isActive :: "hook \<Rightarrow> bool" where
  "isActive h = (case session h of None \<Rightarrow> False | Some s \<Rightarrow> status s = In_progress)"

subsection \<open>Statistics\<close>

definition zero_stats :: WorkoutSessionStats where
  "zero_stats =
     \<lparr>totalDuration = 0, totalSets = 0, completedSets = 0, totalReps = 0, totalWeight = 0,
      exerciseCount = 0, averageRestTime = 0\<rparr>"

text \<open>
  The double nearest to an integer, ties to the even mantissa: integers up to \<open>2^53\<close> are
  doubles; beyond, a double keeps the 53 leading bits. Magnitudes stay below \<open>2^1024\<close>
  (\<open>Number.MAX_VALUE\<close>); \<open>Infinity\<close> is not modelled.
\<close>

fun bit_length :: "nat \<Rightarrow> nat" where
  "bit_length n = (if n = 0 then 0 else Suc (bit_length (n div 2)))"

declare bit_length.simps [simp del]

definition to_double :: "int \<Rightarrow> int" where
  "to_double n =
     (if \<bar>n\<bar> \<le> 9007199254740992 then n
      else (let q = 2 ^ (bit_length (nat \<bar>n\<bar>) - 53);
                m = \<bar>n\<bar> div q;
                r = \<bar>n\<bar> mod q;
                rounded = (if q < 2 * r \<or> (2 * r = q \<and> odd m) then m + 1 else m)
            in sgn n * (rounded * q)))"

text \<open>\<open>a + b\<close> and \<open>a * b\<close> on numbers that hold integers: the exact result, rounded.\<close>

definition js_add :: "int \<Rightarrow> int \<Rightarrow> int" where
  "js_add a b = to_double (a + b)"

definition js_mul :: "int \<Rightarrow> int \<Rightarrow> int" where
  "js_mul a b = to_double (a * b)"

text \<open>The callback of the outer \<open>reduce\<close> of \<open>getStats\<close>.\<close>

definition stats_step :: "WorkoutSessionStats \<Rightarrow> WorkoutExerciseSession \<Rightarrow> WorkoutSessionStats" where
  "stats_step acc ex =
     (let done_sets = filter completed (sets ex)
      in acc\<lparr>totalSets :=
               js_add (totalSets acc) (num_or (targetSets ex) (int (length (sets ex)))),
             completedSets := js_add (completedSets acc) (int (length done_sets)),
             totalReps :=
               js_add (totalReps acc)
                 (foldl (\<lambda>sum st. js_add sum (num_or (reps st) 0)) 0 done_sets),
             totalWeight :=
               js_add (totalWeight acc)
                 (foldl (\<lambda>sum st. js_add sum (js_mul (num_or (weight st) 0) (num_or (reps st) 0)))
                    0 done_sets),
             exerciseCount := js_add (exerciseCount acc) 1\<rparr>)"

definition getStats :: "hook \<Rightarrow> WorkoutSessionStats" where
  "getStats h =
     (case session h of
        None \<Rightarrow> zero_stats
      | Some s \<Rightarrow> (foldl stats_step zero_stats (exercises s))\<lparr>totalDuration := duration h\<rparr>)"

section \<open>The suggestion scorer (usePredictNextExercise)\<close>

text \<open>\<open>String.prototype.toLowerCase\<close> on the ASCII letters.\<close>

definition lower_char :: "char \<Rightarrow> char" where
  "lower_char c =
     (case map_of (zip ''ABCDEFGHIJKLMNOPQRSTUVWXYZ'' ''abcdefghijklmnopqrstuvwxyz'') c of
        None \<Rightarrow> c
      | Some l \<Rightarrow> l)"

definition toLowerCase :: "string \<Rightarrow> string" where
  "toLowerCase str = map lower_char str"

text \<open>\<open>str.includes(keyword)\<close>: the keyword occurs as a contiguous piece.\<close>

definition str_includes :: "string \<Rightarrow> string \<Rightarrow> bool" where
  "str_includes str keyword = sublist keyword str"

definition compoundKeywords :: "string list" where
  "compoundKeywords =
     [''squat'', ''deadlift'', ''bench press'', ''pull-up'', ''chin-up'',
      ''overhead press'', ''row'', ''dip'', ''push-up'']"

definition isCompoundMovement :: "string \<Rightarrow> bool" where
  "isCompoundMovement exerciseName =
     list_ex (\<lambda>keyword. str_includes (toLowerCase exerciseName) keyword) compoundKeywords"

definition popularExercises :: "string list" where
  "popularExercises =
     [''Push-up'', ''Pull-up'', ''Squat'', ''Bench Press'', ''Deadlift'',
      ''Overhead Press'', ''Barbell Row'', ''Dumbbell Curl'', ''Tricep Dip'']"

definition isPopularExercise :: "string \<Rightarrow> bool" where
  "isPopularExercise exerciseName \<longleftrightarrow> exerciseName \<in> set popularExercises"

definition complementaryPairs :: "(string \<times> string) list" where
  "complementaryPairs =
     [(''Chest'', ''Back''), (''Biceps'', ''Triceps''),
      (''Quadriceps'', ''Hamstrings''), (''Shoulders'', ''Back'')]"

text \<open>The two loops of \<open>getBalanceScore\<close>, each a left fold over its list.\<close>

definition getBalanceScore :: "string list \<Rightarrow> string list \<Rightarrow> int" where
  "getBalanceScore exerciseMuscleGroups currentMuscleGroups =
     (let paired =
            foldl (\<lambda>score (muscle1, muscle2).
                     (let score1 = (if muscle1 \<in> set currentMuscleGroups
                                       \<and> muscle2 \<in> set exerciseMuscleGroups
                                    then score + 5 else score)
                      in if muscle2 \<in> set currentMuscleGroups
                            \<and> muscle1 \<in> set exerciseMuscleGroups
                         then score1 + 5 else score1))
                  0 complementaryPairs
      in foldl (\<lambda>score muscleGroup.
                  if muscleGroup \<in> set currentMuscleGroups then score - 1 else score)
               paired exerciseMuscleGroups)"

definition upperBodyGroups :: "string list" where
  "upperBodyGroups = [''Chest'', ''Back'', ''Shoulders'', ''Biceps'', ''Triceps'']"

definition lowerBodyGroups :: "string list" where
  "lowerBodyGroups = [''Quadriceps'', ''Hamstrings'', ''Glutes'', ''Calves'']"

text \<open>
  \<open>getWorkoutPatternScore\<close>: either \<open>JSON.parse\<close> throwing is caught and leaves the score
  at \<open>0\<close>.
\<close>

definition getWorkoutPatternScore :: "Exercise \<Rightarrow> WorkoutExerciseSession list \<Rightarrow> int" where
  "getWorkoutPatternScore ex currentExercises =
     (if length currentExercises > 0
      then (case muscle_groups (exercise (last currentExercises)) of
              None \<Rightarrow> 0
            | Some lastMuscleGroups \<Rightarrow>
                (case muscle_groups ex of
                   None \<Rightarrow> 0
                 | Some currentMuscleGroups \<Rightarrow>
                     (let lastWasUpper = list_ex (\<lambda>mg. mg \<in> set upperBodyGroups) lastMuscleGroups;
                          currentIsLower = list_ex (\<lambda>mg. mg \<in> set lowerBodyGroups) currentMuscleGroups;
                          lastWasLower = list_ex (\<lambda>mg. mg \<in> set lowerBodyGroups) lastMuscleGroups;
                          currentIsUpper = list_ex (\<lambda>mg. mg \<in> set upperBodyGroups) currentMuscleGroups
                      in if (lastWasUpper \<and> currentIsLower) \<or> (lastWasLower \<and> currentIsUpper)
                         then 3 else 0)))
      else 0)"

text \<open>
  The first loop of \<open>predictExercises\<close>: the ids of the session's exercises and the muscle
  groups of those whose \<open>muscle_groups\<close> parse.
\<close>

definition exerciseIds :: "WorkoutExerciseSession list \<Rightarrow> int list" where
  "exerciseIds currentExercises =
     map (\<lambda>workoutExercise. exercise_id (exercise workoutExercise)) currentExercises"

definition currentMuscleGroups :: "WorkoutExerciseSession list \<Rightarrow> string list" where
  "currentMuscleGroups currentExercises =
     concat (map (\<lambda>workoutExercise.
                    case muscle_groups (exercise workoutExercise) of None \<Rightarrow> [] | Some gs \<Rightarrow> gs)
                 currentExercises)"

text \<open>The callback of \<open>availableExercises.map\<close>: the score of one candidate.\<close>

definition scoreExercise :: "WorkoutExerciseSession list \<Rightarrow> Exercise \<Rightarrow> int" where
  "scoreExercise currentExercises ex =
     (case muscle_groups ex of
        None \<Rightarrow> 1
      | Some exerciseMuscleGroups \<Rightarrow>
          (if length currentExercises = 0
           then (if isCompoundMovement (exercise_name ex) then 10 else 0)
           else getBalanceScore exerciseMuscleGroups (currentMuscleGroups currentExercises)
                + getWorkoutPatternScore ex currentExercises)
          + (if isPopularExercise (exercise_name ex) then 2 else 0))"

definition availableExercises :: "WorkoutExerciseSession list \<Rightarrow> Exercise list \<Rightarrow> Exercise list" where
  "availableExercises currentExercises allExercises =
     filter (\<lambda>ex. exercise_id ex \<notin> set (exerciseIds currentExercises)) allExercises"

text \<open>
  \<open>scoredExercises.sort((a, b) => b.score - a.score)\<close>: the stable sort of the engine, by
  descending score.
\<close>

definition sortByScore :: "(Exercise \<times> int) list \<Rightarrow> (Exercise \<times> int) list" where
  "sortByScore scoredExercises = sort_key (\<lambda>item. - snd item) scoredExercises"

text \<open>\<open>xs.slice(0, limit)\<close>: a negative \<open>limit\<close> counts from the end.\<close>

definition slice0 :: "int \<Rightarrow> 'a list \<Rightarrow> 'a list" where
  "slice0 limit xs =
     (if 0 \<le> limit then take (nat limit) xs else take (nat (int (length xs) + limit)) xs)"

text \<open>\<open>scoredExercises\<close>: the candidates left after the filter, each with its score.\<close>

definition scoredExercises ::
  "WorkoutExerciseSession list \<Rightarrow> Exercise list \<Rightarrow> (Exercise \<times> int) list" where
  "scoredExercises currentExercises allExercises =
     map (\<lambda>ex. (ex, scoreExercise currentExercises ex))
         (availableExercises currentExercises allExercises)"

record prediction =
  predictedExercises :: "Exercise list"
  loading :: bool
  prediction_error :: "string option"

text \<open>
  \<open>predictExercises\<close>; \<open>currentWorkout\<close> is \<open>None\<close> when \<open>!currentWorkout?.exercises\<close>, else
  the list \<open>currentWorkout.exercises\<close>.
\<close>

definition predictExercises ::
  "env \<Rightarrow> WorkoutExerciseSession list option \<Rightarrow> int \<Rightarrow> prediction \<Rightarrow> prediction" where
  "predictExercises e currentWorkout limit p =
     (case currentWorkout of
        None \<Rightarrow> p\<lparr>predictedExercises := []\<rparr>
      | Some currentExercises \<Rightarrow>
          (let p1 = p\<lparr>loading := True, prediction_error := None\<rparr>
           in case ExerciseRepository_findAll e of
                Inl err \<Rightarrow>
                  p1\<lparr>prediction_error := Some (''Failed to predict exercises: '' @ err),
                     predictedExercises := [], loading := False\<rparr>
              | Inr allExercises \<Rightarrow>
                  (let topPredictions =
                         map fst (slice0 limit
                                    (sortByScore (scoredExercises currentExercises allExercises)))
                   in p1\<lparr>predictedExercises := topPredictions, loading := False\<rparr>)))"

section \<open>Sequences of calls and the properties checked on them\<close>

datatype action = AddExercise int AddExerciseOptions | CompleteSet int CompleteSetData

fun perform :: "env \<times> action \<Rightarrow> hook \<Rightarrow> hook" where
  "perform (e, AddExercise exerciseId options) h = addExercise e exerciseId options h"
| "perform (e, CompleteSet exerciseIndex setData) h = completeSet e exerciseIndex setData h"

fun run :: "(env \<times> action) list \<Rightarrow> hook \<Rightarrow> hook" where
  "run [] h = h"
| "run (c # cs) h = run cs (perform c h)"

text \<open>
  The numbering invariant: \<open>orderIndex\<close> runs \<open>0, 1, ..\<close> along the exercise list and
  \<open>setNumber\<close> runs \<open>1, 2, ..\<close> along each exercise's sets.
\<close>

definition numbered :: "WorkoutSession \<Rightarrow> bool" where
  "numbered s \<longleftrightarrow>
     map orderIndex (exercises s) = [0..<length (exercises s)] \<and>
     list_all (\<lambda>ex. map setNumber (sets ex) = [1..<length (sets ex) + 1]) (exercises s)"

text \<open>The total load: the exact sum of weight times reps over the completed sets.\<close>

definition total_load :: "WorkoutSession \<Rightarrow> int" where
  "total_load s =
     sum_list (map (\<lambda>ex. sum_list (map (\<lambda>st. num_or (weight st) 0 * num_or (reps st) 0)
                                        (filter completed (sets ex))))
                   (exercises s))"

section \<open>Fixtures\<close>

text \<open>The mocks of the hook's test suite, and a few catalog rows.\<close>

definition push_up :: Exercise where
  "push_up = \<lparr>exercise_id = 1, exercise_name = ''Push-up'', muscle_groups = Some [''Chest''],
              equipment = Some ''[]'', instructions = None\<rparr>"

definition squat :: Exercise where
  "squat = \<lparr>exercise_id = 2, exercise_name = ''Barbell Squat'',
            muscle_groups = Some [''Quadriceps'', ''Glutes''],
            equipment = Some ''[]'', instructions = None\<rparr>"

definition plank :: Exercise where
  "plank = \<lparr>exercise_id = 3, exercise_name = ''Plank'', muscle_groups = Some [''Core''],
            equipment = None, instructions = None\<rparr>"

definition test_env :: env where
  "test_env = \<lparr>now = 1000, sql_error = None, insertId = 1, storage_ok = True,
               catalog = [squat, plank, push_up]\<rparr>"

definition no_options :: AddExerciseOptions where
  "no_options = \<lparr>opt_targetSets = None, opt_targetReps = None, opt_targetWeight = None,
                 opt_targetDuration = None, opt_restDuration = None, opt_notes = None\<rparr>"

definition set_data :: "int option \<Rightarrow> int option \<Rightarrow> int option \<Rightarrow> CompleteSetData" where
  "set_data r w p = \<lparr>data_reps = r, data_weight = w, data_duration = None, data_distance = None,
                     data_rir = None, data_rpe = p, data_notes = None\<rparr>"

definition started :: hook where
  "started = startWorkout test_env None (initial None [])"

definition demo_calls :: "(env \<times> action) list" where
  "demo_calls =
     [(test_env, AddExercise 1 no_options), (test_env, AddExercise 2 no_options),
      (test_env, CompleteSet 0 (set_data (Some 10) (Some 50) None)),
      (test_env, CompleteSet 0 (set_data (Some 8) (Some 50) None)),
      (test_env, CompleteSet 1 (set_data (Some 5) (Some 100) None))]"

text \<open>The started workout after \<open>completeWorkout()\<close>, and after one \<open>addExercise(1)\<close>.\<close>

definition finished :: hook where
  "finished = completeWorkout test_env None started"

definition with_push_up :: hook where
  "with_push_up = addExercise test_env 1 no_options started"

text \<open>An environment whose \<open>AsyncStorage\<close> calls reject.\<close>

definition storage_down :: env where
  "storage_down = test_env\<lparr>storage_ok := False\<rparr>"

text \<open>Two catalog rows whose \<open>muscle_groups\<close> column is not valid JSON.\<close>

definition bad_plank :: Exercise where
  "bad_plank = \<lparr>exercise_id = 4, exercise_name = ''Plank'', muscle_groups = None,
                equipment = None, instructions = None\<rparr>"

definition bad_squat :: Exercise where
  "bad_squat = \<lparr>exercise_id = 5, exercise_name = ''Squat'', muscle_groups = None,
                equipment = None, instructions = None\<rparr>"

definition bad_env :: env where
  "bad_env = test_env\<lparr>catalog := [bad_plank, bad_squat]\<rparr>"

text \<open>
  The snapshot that \<open>addExercise\<close> writes when called on the finished workout, and the
  session it holds.
\<close>

definition kept_snapshot :: "snapshot option" where
  "kept_snapshot = storage (addExercise test_env 1 no_options finished)"

definition done_session :: WorkoutSession where
  "done_session =
     \<lparr>session_id = Some 1, name = None, session_notes = None, started_at = 1000,
      completed_at = Some 1000, status = Completed, template_id = None, created_at = 1000,
      updated_at = 1000,
      exercises = [newExerciseSession test_env push_up no_options 0],
      isAutoSaving = False, lastSavedAt = Some 1000, sessionStartTime = 1000,
      pausedTime = None, isPaused = False\<rparr>"

text \<open>A later moment, with the next row id.\<close>

definition later_env :: env where
  "later_env = test_env\<lparr>now := 2000, insertId := 2\<rparr>"

definition no_prediction :: prediction where
  "no_prediction = \<lparr>predictedExercises = [], loading = False, prediction_error = None\<rparr>"

lemmas fixture_defs =
  started_def test_env_def push_up_def squat_def plank_def no_options_def set_data_def
  initial_def finished_def with_push_up_def storage_down_def bad_plank_def bad_squat_def
  bad_env_def no_prediction_def later_env_def kept_snapshot_def done_session_def

lemmas action_defs =
  startWorkout_def addExercise_def completeSet_def completeWorkout_def cancelWorkout_def
  recoverWorkout_def mount_def saveToStorage_def clearStorage_def startIntervals_def
  stopIntervals_def session_with_id_def WorkoutRepository_create_def
  WorkoutRepository_update_def ExerciseRepository_findById_def newExerciseSession_def
  newSet_def id_or_null_def num_or_def str_or_def Let_def

section \<open>Basic facts about the actions\<close>

lemma saveToStorage_session:
  "session (saveToStorage e sd h) =
     (if storage_ok e then map_option (\<lambda>prev. prev\<lparr>lastSavedAt := Some (now e)\<rparr>) (session h)
      else session h)"
  by (simp add: saveToStorage_def)

lemma addExercise_found:
  assumes "session h = Some s" and "ExerciseRepository_findById e i = Inr (Some ex)"
  shows "session (addExercise e i options h) =
           Some (s\<lparr>exercises :=
                     exercises s @ [newExerciseSession e ex options (length (exercises s))],
                   updated_at := now e,
                   lastSavedAt := (if storage_ok e then Some (now e) else lastSavedAt s)\<rparr>)"
  using assms by (simp add: addExercise_def Let_def saveToStorage_session)

lemma completeSet_in_range:
  assumes "session h = Some s" and "0 \<le> i" and "i < int (length (exercises s))"
  shows "session (completeSet e i d h) =
           Some (s\<lparr>exercises := (exercises s)[nat i :=
                      (exercises s ! nat i)\<lparr>sets := sets (exercises s ! nat i)
                           @ [newSet e d (length (sets (exercises s ! nat i)) + 1)],
                         lastSetCompletedAt := Some (now e)\<rparr>],
                   updated_at := now e,
                   lastSavedAt := (if storage_ok e then Some (now e) else lastSavedAt s)\<rparr>)"
  using assms by (simp add: completeSet_def Let_def saveToStorage_session)

lemma startWorkout_created:
  assumes "sql_error e = None" and "insertId e \<noteq> 0"
  shows "\<exists>s. session (startWorkout e t h) = Some s \<and> exercises s = []
             \<and> status s = In_progress \<and> session_id s = Some (insertId e)"
  using assms
  by (simp add: startWorkout_def WorkoutRepository_create_def Let_def saveToStorage_session
        startIntervals_def)

lemma findById_test_env: "ExerciseRepository_findById test_env 1 = Inr (Some push_up)"
  by (simp add: ExerciseRepository_findById_def test_env_def push_up_def squat_def plank_def)

lemma findById_test_env_squat: "ExerciseRepository_findById test_env 2 = Inr (Some squat)"
  by (simp add: ExerciseRepository_findById_def test_env_def push_up_def squat_def plank_def)

lemma started_session:
  "\<exists>s. session started = Some s \<and> exercises s = [] \<and> status s = In_progress
       \<and> session_id s = Some 1"
  using startWorkout_created[of test_env None "initial None []"]
  by (simp add: started_def test_env_def)

section \<open>Numbering of exercises and sets\<close>

lemma numbered_append:
  assumes "numbered s"
  shows "numbered (s\<lparr>exercises :=
                        exercises s @ [newExerciseSession e ex options (length (exercises s))],
                      updated_at := t, lastSavedAt := l\<rparr>)"
  using assms by (simp add: numbered_def newExerciseSession_def)

lemma numbered_update:
  assumes "numbered s" and "k < length (exercises s)"
  shows "numbered (s\<lparr>exercises := (exercises s)[k :=
                      (exercises s ! k)\<lparr>sets := sets (exercises s ! k)
                           @ [newSet e d (length (sets (exercises s ! k)) + 1)],
                         lastSetCompletedAt := t'\<rparr>],
                   updated_at := t, lastSavedAt := l\<rparr>)"
proof -
  let ?xs = "exercises s"
  let ?y = "(?xs ! k)\<lparr>sets := sets (?xs ! k) @ [newSet e d (length (sets (?xs ! k)) + 1)],
                         lastSetCompletedAt := t'\<rparr>"
  have idx: "map orderIndex (?xs[k := ?y]) = map orderIndex ?xs"
    using assms(2) by (simp add: map_update list_update_same_conv)
  have old: "map setNumber (sets (?xs ! k)) = [1..<length (sets (?xs ! k)) + 1]"
    using assms by (simp add: numbered_def list_all_length)
  have new: "map setNumber (sets ?y) = [1..<length (sets ?y) + 1]"
    using old by (simp add: newSet_def)
  have "list_all (\<lambda>ex. map setNumber (sets ex) = [1..<length (sets ex) + 1]) (?xs[k := ?y])"
    unfolding list_all_length
  proof (intro allI impI)
    fix n assume "n < length (?xs[k := ?y])"
    then show "map setNumber (sets (?xs[k := ?y] ! n))
                 = [1..<length (sets (?xs[k := ?y] ! n)) + 1]"
      using new assms by (cases "n = k") (simp_all add: numbered_def list_all_length)
  qed
  then show ?thesis using idx assms(1) by (simp add: numbered_def)
qed

lemma perform_numbered:
  assumes "session h = Some s" and "numbered s"
  shows "\<exists>s'. session (perform c h) = Some s' \<and> numbered s'"
proof (cases c)
  case (Pair e a)
  show ?thesis
  proof (cases a)
    case (AddExercise i options)
    show ?thesis
    proof (cases "ExerciseRepository_findById e i")
      case (Inl err)
      then show ?thesis using assms Pair AddExercise by (simp add: addExercise_def)
    next
      case (Inr r)
      show ?thesis
      proof (cases r)
        case None
        then show ?thesis using assms Pair AddExercise Inr by (simp add: addExercise_def)
      next
        case (Some ex)
        then show ?thesis
          using assms Pair AddExercise Inr addExercise_found[OF assms(1), of e i ex options]
            numbered_append[OF assms(2)]
          by simp
      qed
    qed
  next
    case (CompleteSet i d)
    show ?thesis
    proof (cases "0 \<le> i \<and> i < int (length (exercises s))")
      case True
      then have "nat i < length (exercises s)" by linarith
      then show ?thesis
        using True assms Pair CompleteSet completeSet_in_range[OF assms(1), of i e d]
          numbered_update[OF assms(2), of "nat i"]
        by simp
    next
      case False
      then show ?thesis using assms Pair CompleteSet by (auto simp add: completeSet_def)
    qed
  qed
qed

lemma run_numbered:
  "session h = Some s \<Longrightarrow> numbered s \<Longrightarrow> \<exists>s'. session (run cs h) = Some s' \<and> numbered s'"
proof (induction cs arbitrary: h s)
  case Nil
  then show ?case by simp
next
  case (Cons c cs)
  from perform_numbered[OF Cons.prems] obtain s1
    where "session (perform c h) = Some s1" "numbered s1" by blast
  from Cons.IH[OF this] show ?case by simp
qed

lemma upt_from_one_increasing: "sorted_wrt (<) [1..<n] \<and> distinct [1..<n]"
  by (simp add: sorted_wrt_upt)

text \<open>
  C7. Starting from a session with no exercises, after any sequence of \<open>addExercise\<close> and
  \<open>completeSet\<close> calls (whatever their arguments and the answers of the stores) the session
  is still there, the \<open>orderIndex\<close> values of its exercises are \<open>0, 1, .., n - 1\<close> in list
  order, and in every exercise the \<open>setNumber\<close> values are \<open>1, 2, .., k\<close> in list order:
  strictly increasing and never repeated.
\<close>

theorem orderIndex_contiguous_setNumber_increasing:
  assumes "session h = Some s0" and "exercises s0 = []"
  shows "\<exists>s. session (run calls h) = Some s
           \<and> map orderIndex (exercises s) = [0..<length (exercises s)]
           \<and> (\<forall>ex \<in> set (exercises s).
                 map setNumber (sets ex) = [1..<length (sets ex) + 1]
                 \<and> sorted_wrt (<) (map setNumber (sets ex))
                 \<and> distinct (map setNumber (sets ex)))"
proof -
  have "numbered s0" using assms(2) by (simp add: numbered_def)
  from run_numbered[OF assms(1) this] obtain s
    where s: "session (run calls h) = Some s" and n: "numbered s" by blast
  have "\<forall>ex \<in> set (exercises s).
          map setNumber (sets ex) = [1..<length (sets ex) + 1]
          \<and> sorted_wrt (<) (map setNumber (sets ex))
          \<and> distinct (map setNumber (sets ex))"
  proof
    fix ex assume "ex \<in> set (exercises s)"
    then have eq: "map setNumber (sets ex) = [1..<length (sets ex) + 1]"
      using n by (simp add: numbered_def list_all_iff)
    show "map setNumber (sets ex) = [1..<length (sets ex) + 1]
          \<and> sorted_wrt (<) (map setNumber (sets ex))
          \<and> distinct (map setNumber (sets ex))"
      unfolding eq using upt_from_one_increasing[of "length (sets ex) + 1"] by simp
  qed
  then show ?thesis using s n unfolding numbered_def by blast
qed

theorem orderIndex_contiguous_setNumber_increasing_witness:
  "(\<exists>s0. session started = Some s0 \<and> exercises s0 = [])
   \<and> (\<exists>s. session (run demo_calls started) = Some s
           \<and> map orderIndex (exercises s) = [0..<length (exercises s)]
           \<and> (\<forall>ex \<in> set (exercises s).
                 map setNumber (sets ex) = [1..<length (sets ex) + 1]
                 \<and> sorted_wrt (<) (map setNumber (sets ex))
                 \<and> distinct (map setNumber (sets ex)))
           \<and> map (\<lambda>ex. length (sets ex)) (exercises s) = [2, 1])"
proof -
  obtain s0 where h: "session started = Some s0" "exercises s0 = []"
    using started_session by blast
  obtain s where s: "session (run demo_calls started) = Some s"
      "map orderIndex (exercises s) = [0..<length (exercises s)]"
      "\<forall>ex \<in> set (exercises s).
          map setNumber (sets ex) = [1..<length (sets ex) + 1]
          \<and> sorted_wrt (<) (map setNumber (sets ex))
          \<and> distinct (map setNumber (sets ex))"
    using orderIndex_contiguous_setNumber_increasing[OF h, of demo_calls] by blast
  have "map (\<lambda>ex. length (sets ex)) (exercises (the (session (run demo_calls started)))) = [2, 1]"
    by (simp add: demo_calls_def fixture_defs action_defs)
  then have len: "map (\<lambda>ex. length (sets ex)) (exercises s) = [2, 1]" using s(1) by simp
  have fresh: "\<exists>s0. session started = Some s0 \<and> exercises s0 = []"
    using h by blast
  have after: "\<exists>s. session (run demo_calls started) = Some s
           \<and> map orderIndex (exercises s) = [0..<length (exercises s)]
           \<and> (\<forall>ex \<in> set (exercises s).
                 map setNumber (sets ex) = [1..<length (sets ex) + 1]
                 \<and> sorted_wrt (<) (map setNumber (sets ex))
                 \<and> distinct (map setNumber (sets ex)))
           \<and> map (\<lambda>ex. length (sets ex)) (exercises s) = [2, 1]"
    by (intro conjI exI[of _ s]) (fact s len)+
  show ?thesis
    by (intro conjI) (fact fresh after)+
qed

section \<open>Statistics\<close>

lemma to_double_exact: "\<bar>n\<bar> \<le> 9007199254740992 \<Longrightarrow> to_double n = n"
  by (simp add: to_double_def)

lemma to_double_rounds:
  "to_double 9007199254740993 = 9007199254740992"
  "to_double 9007199254740995 = 9007199254740996"
  by (simp_all add: to_double_def bit_length.simps Let_def)

lemma foldl_js_add_exact:
  assumes "0 \<le> a" and "\<forall>y \<in> set ys. 0 \<le> g y"
    and "a + sum_list (map g ys) \<le> 9007199254740992"
  shows "foldl (\<lambda>sum y. js_add sum (g y)) a ys = a + sum_list (map g ys)"
  using assms
proof (induction ys arbitrary: a)
  case Nil
  then show ?case by simp
next
  case (Cons y ys)
  have nonneg: "0 \<le> sum_list (map g ys)"
    using Cons.prems(2) by (intro sum_list_nonneg) auto
  have gy: "0 \<le> g y" using Cons.prems(2) by simp
  have "\<bar>a + g y\<bar> \<le> 9007199254740992"
    using Cons.prems(1,3) gy nonneg by simp
  then have step: "js_add a (g y) = a + g y"
    by (simp add: js_add_def to_double_exact)
  have "foldl (\<lambda>sum y. js_add sum (g y)) (a + g y) ys = (a + g y) + sum_list (map g ys)"
    using Cons.prems gy by (intro Cons.IH) simp_all
  then show ?case using step by simp
qed

lemma js_mul_exact:
  "0 \<le> a \<Longrightarrow> 0 \<le> b \<Longrightarrow> a * b \<le> 9007199254740992 \<Longrightarrow> js_mul a b = a * b"
  by (simp add: js_mul_def to_double_exact)

text \<open>The load of one exercise, and when the fold of \<open>getStats\<close> computes it exactly.\<close>

lemma exercise_load_exact:
  assumes "\<forall>st \<in> set (sets ex). 0 \<le> num_or (weight st) 0 \<and> 0 \<le> num_or (reps st) 0"
    and "sum_list (map (\<lambda>st. num_or (weight st) 0 * num_or (reps st) 0)
                       (filter completed (sets ex))) \<le> 9007199254740992"
  shows "foldl (\<lambda>sum st. js_add sum (js_mul (num_or (weight st) 0) (num_or (reps st) 0)))
               0 (filter completed (sets ex))
         = sum_list (map (\<lambda>st. num_or (weight st) 0 * num_or (reps st) 0)
                         (filter completed (sets ex)))"
proof -
  let ?g = "\<lambda>st. num_or (weight st) 0 * num_or (reps st) 0"
  let ?ys = "filter completed (sets ex)"
  have pos: "\<forall>st \<in> set ?ys. 0 \<le> ?g st" using assms(1) by simp
  have each: "\<forall>st \<in> set ?ys. ?g st \<le> 9007199254740992"
  proof
    fix st assume st: "st \<in> set ?ys"
    have "?g st \<le> sum_list (map ?g ?ys)"
      using pos st by (intro member_le_sum_list) auto
    then show "?g st \<le> 9007199254740992" using assms(2) by simp
  qed
  have same: "foldl (\<lambda>sum st. js_add sum (js_mul (num_or (weight st) 0) (num_or (reps st) 0)))
                 a ys = foldl (\<lambda>sum st. js_add sum (?g st)) a ys"
    if "\<forall>st \<in> set ys. 0 \<le> num_or (weight st) 0 \<and> 0 \<le> num_or (reps st) 0
          \<and> ?g st \<le> 9007199254740992" for a ys
    using that by (induction ys arbitrary: a) (simp_all add: js_mul_exact)
  have "foldl (\<lambda>sum st. js_add sum (js_mul (num_or (weight st) 0) (num_or (reps st) 0))) 0 ?ys
          = foldl (\<lambda>sum st. js_add sum (?g st)) 0 ?ys"
    using assms(1) each by (intro same) simp
  also have "\<dots> = 0 + sum_list (map ?g ?ys)"
    using pos assms(2) by (intro foldl_js_add_exact) simp_all
  finally show ?thesis by simp
qed

lemma totalWeight_foldl_exact:
  assumes "0 \<le> totalWeight acc"
    and "\<forall>ex \<in> set xs. \<forall>st \<in> set (sets ex).
           0 \<le> num_or (weight st) 0 \<and> 0 \<le> num_or (reps st) 0"
    and "totalWeight acc
           + sum_list (map (\<lambda>ex. sum_list (map (\<lambda>st. num_or (weight st) 0 * num_or (reps st) 0)
                                                (filter completed (sets ex)))) xs)
         \<le> 9007199254740992"
  shows "totalWeight (foldl stats_step acc xs) =
           totalWeight acc
           + sum_list (map (\<lambda>ex. sum_list (map (\<lambda>st. num_or (weight st) 0 * num_or (reps st) 0)
                                                (filter completed (sets ex)))) xs)"
  using assms
proof (induction xs arbitrary: acc)
  case Nil
  then show ?case by simp
next
  case (Cons x xs)
  let ?g = "\<lambda>st. num_or (weight st) 0 * num_or (reps st) 0"
  let ?L = "\<lambda>ex. sum_list (map ?g (filter completed (sets ex)))"
  have Lpos: "0 \<le> ?L ex" if "ex \<in> set (x # xs)" for ex
    using Cons.prems(2) that by (intro sum_list_nonneg) auto
  have rest: "0 \<le> sum_list (map ?L xs)"
    using Lpos by (intro sum_list_nonneg) auto
  have Lx: "0 \<le> ?L x" using Lpos by simp
  have bound: "totalWeight acc + ?L x \<le> 9007199254740992"
    using Cons.prems(3) rest by simp
  have inner: "foldl (\<lambda>sum st. js_add sum (js_mul (num_or (weight st) 0) (num_or (reps st) 0)))
                 0 (filter completed (sets x)) = ?L x"
    using Cons.prems(1,2) bound by (intro exercise_load_exact) simp_all
  have "\<bar>totalWeight acc + ?L x\<bar> \<le> 9007199254740992"
    using Cons.prems(1) Lx bound by simp
  then have step: "totalWeight (stats_step acc x) = totalWeight acc + ?L x"
    using inner by (simp add: stats_step_def Let_def js_add_def to_double_exact)
  have "totalWeight (foldl stats_step (stats_step acc x) xs)
          = totalWeight (stats_step acc x) + sum_list (map ?L xs)"
    using Cons.prems step Lx by (intro Cons.IH) simp_all
  then show ?case using step by simp
qed

lemma getStats_totalWeight_exact:
  assumes "session h = Some s"
    and "\<forall>ex \<in> set (exercises s). \<forall>st \<in> set (sets ex).
           0 \<le> num_or (weight st) 0 \<and> 0 \<le> num_or (reps st) 0"
    and "total_load s \<le> 9007199254740992"
  shows "totalWeight (getStats h) = total_load s"
  using assms totalWeight_foldl_exact[of zero_stats "exercises s"]
  by (simp add: getStats_def total_load_def zero_stats_def)

text \<open>
  Beyond \<open>2^53\<close> the statistics round as the doubles of the code do: a set of
  \<open>9007199254740992\<close> kg and a set of \<open>1\<close> kg, one rep each, report
  \<open>9007199254740992\<close> where the exact load is \<open>9007199254740993\<close>.
\<close>

lemma getStats_rounds_beyond_2_53:
  "totalWeight (getStats
      (completeSet test_env 0 (set_data (Some 1) (Some 1) None)
         (completeSet test_env 0 (set_data (Some 1) (Some 9007199254740992) None)
            with_push_up))) = 9007199254740992"
  "map_option total_load (session
      (completeSet test_env 0 (set_data (Some 1) (Some 1) None)
         (completeSet test_env 0 (set_data (Some 1) (Some 9007199254740992) None)
            with_push_up))) = Some 9007199254740993"
  by (simp_all add: fixture_defs action_defs getStats_def zero_stats_def stats_step_def
        total_load_def js_add_def js_mul_def to_double_exact to_double_rounds)

text \<open>
  C8. Start a workout (the Record Store accepts it), add one exercise that the catalog
  knows, then \<open>completeSet(0, {reps: 10, weight: 50})\<close>: the session has exactly one
  exercise, that exercise has exactly one set, with \<open>setNumber = 1\<close> and
  \<open>completed = true\<close>, and \<open>getStats()\<close> reports \<open>totalReps = 10\<close> and \<open>totalWeight = 500\<close>,
  the sum of weight times reps over the completed sets. For every session whose
  weights and reps are not negative and whose total load is at most \<open>2^53\<close>, where the
  double arithmetic of \<open>getStats\<close> is exact, \<open>totalWeight\<close> is that sum.
\<close>

theorem first_set_scenario:
  assumes "sql_error e1 = None" and "insertId e1 \<noteq> 0"
    and "ExerciseRepository_findById e2 i = Inr (Some ex)"
  shows "\<exists>s x st.
           session (completeSet e3 0 (set_data (Some 10) (Some 50) None)
                      (addExercise e2 i options (startWorkout e1 t h0))) = Some s
           \<and> exercises s = [x] \<and> sets x = [st] \<and> setNumber st = 1 \<and> completed st
           \<and> totalReps (getStats (completeSet e3 0 (set_data (Some 10) (Some 50) None)
                      (addExercise e2 i options (startWorkout e1 t h0)))) = 10
           \<and> totalWeight (getStats (completeSet e3 0 (set_data (Some 10) (Some 50) None)
                      (addExercise e2 i options (startWorkout e1 t h0)))) = 500
           \<and> total_load s = 500
           \<and> (\<forall>h' s'. session h' = Some s'
                  \<and> (\<forall>ex \<in> set (exercises s'). \<forall>st \<in> set (sets ex).
                        0 \<le> num_or (weight st) 0 \<and> 0 \<le> num_or (reps st) 0)
                  \<and> total_load s' \<le> 9007199254740992
                \<longrightarrow> totalWeight (getStats h') = total_load s')"
proof -
  obtain s1 where s1: "session (startWorkout e1 t h0) = Some s1" "exercises s1 = []"
    using startWorkout_created[OF assms(1,2)] by blast
  let ?h2 = "addExercise e2 i options (startWorkout e1 t h0)"
  obtain s2 where s2: "session ?h2 = Some s2"
      "exercises s2 = [newExerciseSession e2 ex options 0]"
    using addExercise_found[OF s1(1) assms(3), of options] s1(2) by simp
  let ?h3 = "completeSet e3 0 (set_data (Some 10) (Some 50) None) ?h2"
  let ?d = "set_data (Some 10) (Some 50) None"
  obtain s3 where s3: "session ?h3 = Some s3"
      "exercises s3 = [(newExerciseSession e2 ex options 0)
                         \<lparr>sets := [newSet e3 ?d 1], lastSetCompletedAt := Some (now e3)\<rparr>]"
    using completeSet_in_range[OF s2(1), of 0 e3 ?d] s2(2)
    by (simp add: newExerciseSession_def)
  have load: "total_load s3 = 500"
    using s3(2) by (simp add: total_load_def newSet_def set_data_def num_or_def)
  have reps: "totalReps (getStats ?h3) = 10"
    using s3
    by (simp add: getStats_def zero_stats_def stats_step_def Let_def newSet_def set_data_def
          num_or_def js_add_def to_double_exact)
  have wt: "totalWeight (getStats ?h3) = 500"
    using s3
    by (simp add: getStats_def zero_stats_def stats_step_def Let_def newSet_def set_data_def
          num_or_def js_add_def js_mul_def to_double_exact)
  have exact: "\<forall>h' s'. session h' = Some s'
                  \<and> (\<forall>ex \<in> set (exercises s'). \<forall>st \<in> set (sets ex).
                        0 \<le> num_or (weight st) 0 \<and> 0 \<le> num_or (reps st) 0)
                  \<and> total_load s' \<le> 9007199254740992
                \<longrightarrow> totalWeight (getStats h') = total_load s'"
    using getStats_totalWeight_exact by blast
  define x where
    "x = (newExerciseSession e2 ex options 0)
           \<lparr>sets := [newSet e3 ?d 1], lastSetCompletedAt := Some (now e3)\<rparr>"
  have one: "exercises s3 = [x]" using s3(2) by (simp add: x_def)
  have its: "sets x = [newSet e3 ?d 1]" by (simp add: x_def)
  have num: "setNumber (newSet e3 ?d 1) = 1" and fin: "completed (newSet e3 ?d 1)"
    by (simp_all add: newSet_def)
  show ?thesis
    by (intro exI[of _ s3] exI[of _ x] exI[of _ "newSet e3 ?d 1"] conjI)
      (fact s3(1) one its num fin reps wt load exact)+
qed

theorem first_set_scenario_witness:
  "sql_error test_env = None \<and> insertId test_env \<noteq> 0
   \<and> ExerciseRepository_findById test_env 1 = Inr (Some push_up)
   \<and> (\<exists>s x st.
           session (completeSet test_env 0 (set_data (Some 10) (Some 50) None)
                      (addExercise test_env 1 no_options
                         (startWorkout test_env None (initial None [])))) = Some s
           \<and> exercises s = [x] \<and> sets x = [st] \<and> setNumber st = 1 \<and> completed st
           \<and> totalReps (getStats (completeSet test_env 0 (set_data (Some 10) (Some 50) None)
                      (addExercise test_env 1 no_options
                         (startWorkout test_env None (initial None []))))) = 10
           \<and> totalWeight (getStats (completeSet test_env 0 (set_data (Some 10) (Some 50) None)
                      (addExercise test_env 1 no_options
                         (startWorkout test_env None (initial None []))))) = 500
           \<and> total_load s = 500)"
proof -
  have a: "sql_error test_env = None" and b: "insertId test_env \<noteq> 0"
    by (simp_all add: test_env_def)
  have run: "\<exists>s x st.
           session (completeSet test_env 0 (set_data (Some 10) (Some 50) None)
                      (addExercise test_env 1 no_options
                         (startWorkout test_env None (initial None [])))) = Some s
           \<and> exercises s = [x] \<and> sets x = [st] \<and> setNumber st = 1 \<and> completed st
           \<and> totalReps (getStats (completeSet test_env 0 (set_data (Some 10) (Some 50) None)
                      (addExercise test_env 1 no_options
                         (startWorkout test_env None (initial None []))))) = 10
           \<and> totalWeight (getStats (completeSet test_env 0 (set_data (Some 10) (Some 50) None)
                      (addExercise test_env 1 no_options
                         (startWorkout test_env None (initial None []))))) = 500
           \<and> total_load s = 500"
    using first_set_scenario[OF a b findById_test_env, of test_env no_options None
        "initial None []"]
    by (elim exE conjE) (intro exI conjI, assumption+)
  show ?thesis
    by (intro conjI) (fact a b findById_test_env run)+
qed

section \<open>Options of \<open>addExercise\<close>\<close>

text \<open>
  C10. When \<open>addExercise\<close> appends an exercise, an option value of \<open>0\<close> is replaced by the
  default: \<open>targetSets = 0\<close> is stored as \<open>3\<close> and \<open>restDuration = 0\<close> as \<open>60\<close>. Whatever
  the options, the stored \<open>targetSets\<close> and \<open>restDuration\<close> are never \<open>0\<close>.
\<close>

theorem addExercise_zero_options_replaced:
  assumes "session h = Some s" and "ExerciseRepository_findById e i = Inr (Some ex)"
  shows "\<exists>s' x. session (addExercise e i options h) = Some s'
           \<and> exercises s' = exercises s @ [x]
           \<and> (opt_targetSets options = Some 0 \<longrightarrow> targetSets x = Some 3)
           \<and> (opt_restDuration options = Some 0 \<longrightarrow> restDuration x = Some 60)
           \<and> targetSets x \<noteq> Some 0 \<and> restDuration x \<noteq> Some 0"
  using addExercise_found[OF assms, of options]
  by (simp add: newExerciseSession_def num_or_def split: option.splits)

theorem addExercise_zero_options_replaced_witness:
  "(\<exists>s. session started = Some s)
   \<and> ExerciseRepository_findById test_env 1 = Inr (Some push_up)
   \<and> opt_targetSets (no_options\<lparr>opt_targetSets := Some 0, opt_restDuration := Some 0\<rparr>) = Some 0
   \<and> opt_restDuration (no_options\<lparr>opt_targetSets := Some 0, opt_restDuration := Some 0\<rparr>) = Some 0
   \<and> (\<exists>s' x. session (addExercise test_env 1
                  (no_options\<lparr>opt_targetSets := Some 0, opt_restDuration := Some 0\<rparr>) started)
               = Some s'
           \<and> exercises s' = [x] \<and> targetSets x = Some 3 \<and> restDuration x = Some 60)"
proof -
  obtain s where s: "session started = Some s" "exercises s = []"
    using started_session by blast
  let ?o = "no_options\<lparr>opt_targetSets := Some 0, opt_restDuration := Some 0\<rparr>"
  have z: "opt_targetSets ?o = Some 0" "opt_restDuration ?o = Some 0" by simp_all
  show ?thesis
    using s z findById_test_env
      addExercise_zero_options_replaced[OF s(1) findById_test_env, of ?o]
    by auto
qed


section \<open>Lifecycle checks of the actions\<close>

lemma completeSet_in_range_error:
  assumes "session h = Some s" and "0 \<le> i" and "i < int (length (exercises s))"
  shows "error (completeSet e i d h) = error h"
  using assms by (simp add: completeSet_def Let_def saveToStorage_def)

lemma addExercise_found_error:
  assumes "session h = Some s" and "ExerciseRepository_findById e i = Inr (Some ex)"
  shows "error (addExercise e i options h) = error h"
  using assms by (simp add: addExercise_def Let_def saveToStorage_def)

lemma finished_session:
  "\<exists>s. session finished = Some s \<and> status s = Completed \<and> exercises s = []"
  by (simp add: fixture_defs action_defs)

text \<open>
  C1, as stated, fails: after \<open>completeWorkout\<close> the session is \<open>completed\<close>, and
  \<open>addExercise\<close> still appends an exercise to it and reports no error.
\<close>

theorem addExercise_after_complete_counterexample:
  "map_option status (session finished) = Some Completed
   \<and> map_option (length \<circ> exercises) (session finished) = Some 0
   \<and> map_option (length \<circ> exercises) (session (addExercise test_env 1 no_options finished))
       = Some 1
   \<and> map_option status (session (addExercise test_env 1 no_options finished)) = Some Completed
   \<and> error (addExercise test_env 1 no_options finished) = None"
  by (simp add: fixture_defs action_defs)

text \<open>
  C1, amended. \<open>addExercise\<close> and \<open>completeSet\<close> look at whether a session exists, never
  at its status. Without a session they only set an error message and change nothing
  else. With a session of any status (\<open>completed\<close> and \<open>cancelled\<close> included),
  \<open>addExercise\<close> of an exercise the catalog knows appends it, and \<open>completeSet\<close> at an
  index in range appends the set; the status stays as it was and no error is reported.
\<close>

theorem mutations_ignore_status:
  "(session h = None \<longrightarrow>
      addExercise e i options h = h\<lparr>error := Some ''No active workout session''\<rparr>
      \<and> completeSet e k d h = h\<lparr>error := Some ''Invalid exercise or session''\<rparr>)
   \<and> (session h = Some s \<and> ExerciseRepository_findById e i = Inr (Some ex) \<longrightarrow>
        (\<exists>s'. session (addExercise e i options h) = Some s'
           \<and> exercises s' = exercises s @ [newExerciseSession e ex options (length (exercises s))]
           \<and> status s' = status s)
        \<and> error (addExercise e i options h) = error h)
   \<and> (session h = Some s \<and> 0 \<le> k \<and> k < int (length (exercises s)) \<longrightarrow>
        (\<exists>s'. session (completeSet e k d h) = Some s'
           \<and> length (exercises s') = length (exercises s)
           \<and> sets (exercises s' ! nat k)
               = sets (exercises s ! nat k)
                 @ [newSet e d (length (sets (exercises s ! nat k)) + 1)]
           \<and> status s' = status s)
        \<and> error (completeSet e k d h) = error h)"
proof (intro conjI impI)
  assume "session h = None"
  then show "addExercise e i options h = h\<lparr>error := Some ''No active workout session''\<rparr>"
    and "completeSet e k d h = h\<lparr>error := Some ''Invalid exercise or session''\<rparr>"
    by (simp_all add: addExercise_def completeSet_def)
next
  assume a: "session h = Some s \<and> ExerciseRepository_findById e i = Inr (Some ex)"
  then show "\<exists>s'. session (addExercise e i options h) = Some s'
           \<and> exercises s' = exercises s @ [newExerciseSession e ex options (length (exercises s))]
           \<and> status s' = status s"
    using addExercise_found[of h s e i ex options] by simp
  from a show "error (addExercise e i options h) = error h"
    using addExercise_found_error[of h s e i ex options] by simp
next
  assume a: "session h = Some s \<and> 0 \<le> k \<and> k < int (length (exercises s))"
  then have "nat k < length (exercises s)" by linarith
  then show "\<exists>s'. session (completeSet e k d h) = Some s'
           \<and> length (exercises s') = length (exercises s)
           \<and> sets (exercises s' ! nat k)
               = sets (exercises s ! nat k)
                 @ [newSet e d (length (sets (exercises s ! nat k)) + 1)]
           \<and> status s' = status s"
    using a completeSet_in_range[of h s k e d] by simp
  from a show "error (completeSet e k d h) = error h"
    using completeSet_in_range_error[of h s k e d] by simp
qed

theorem mutations_ignore_status_witness:
  "(\<exists>s. session finished = Some s \<and> status s = Completed \<and> exercises s = [])
   \<and> ExerciseRepository_findById test_env 1 = Inr (Some push_up)
   \<and> (\<exists>s'. session (addExercise test_env 1 no_options finished) = Some s'
         \<and> exercises s' = [newExerciseSession test_env push_up no_options 0]
         \<and> status s' = Completed)
   \<and> error (addExercise test_env 1 no_options finished) = error finished
   \<and> (\<exists>s'. session (completeSet test_env 0 (set_data (Some 10) (Some 50) None)
                       (addExercise test_env 1 no_options finished)) = Some s'
         \<and> length (exercises s') = 1 \<and> length (sets (exercises s' ! 0)) = 1
         \<and> status s' = Completed)
   \<and> session (initial None []) = None
   \<and> addExercise test_env 1 no_options (initial None [])
       = (initial None [])\<lparr>error := Some ''No active workout session''\<rparr>"
proof -
  let ?d = "set_data (Some 10) (Some 50) None"
  obtain s where s: "session finished = Some s" "status s = Completed" "exercises s = []"
    using finished_session by blast
  have n: "session (initial None []) = None" by (simp add: initial_def)
  have fin: "\<exists>s. session finished = Some s \<and> status s = Completed \<and> exercises s = []"
    using s by blast
  have add: "\<exists>s'. session (addExercise test_env 1 no_options finished) = Some s'
         \<and> exercises s' = [newExerciseSession test_env push_up no_options 0]
         \<and> status s' = Completed"
    using mutations_ignore_status[of finished test_env 1 no_options 0 ?d s push_up]
      s findById_test_env by simp
  then obtain s1 where s1: "session (addExercise test_env 1 no_options finished) = Some s1"
      "exercises s1 = [newExerciseSession test_env push_up no_options 0]"
      "status s1 = Completed"
    by blast
  have err: "error (addExercise test_env 1 no_options finished) = error finished"
    using mutations_ignore_status[of finished test_env 1 no_options 0 ?d s push_up]
      s findById_test_env by simp
  have cs: "\<exists>s'. session (completeSet test_env 0 ?d
                       (addExercise test_env 1 no_options finished)) = Some s'
         \<and> length (exercises s') = 1 \<and> length (sets (exercises s' ! 0)) = 1
         \<and> status s' = Completed"
    using mutations_ignore_status[of "addExercise test_env 1 no_options finished" test_env 1
        no_options 0 ?d s1 push_up] s1
    by (auto simp add: newExerciseSession_def)
  have none: "addExercise test_env 1 no_options (initial None [])
       = (initial None [])\<lparr>error := Some ''No active workout session''\<rparr>"
    using mutations_ignore_status[of "initial None []" test_env 1 no_options 0 ?d s push_up]
      n by simp
  show ?thesis
    by (intro conjI) (fact fin findById_test_env add err cs n none)+
qed

text \<open>
  C2, as stated, fails: with a session in progress, \<open>startWorkout\<close> reports no error,
  inserts a second row into the Record Store and replaces the session.
\<close>

theorem startWorkout_while_active_counterexample:
  "isActive started
   \<and> map workout_id (workouts started) = [1]
   \<and> error (startWorkout later_env None started) = None
   \<and> map workout_id (workouts (startWorkout later_env None started)) = [1, 2]
   \<and> map_option session_id (session (startWorkout later_env None started)) = Some (Some 2)"
  by (simp add: isActive_def fixture_defs action_defs)

text \<open>
  C2, amended. \<open>startWorkout\<close> does not look at the current session. Whenever the Record
  Store accepts the insert, it adds exactly one row, reports no error and replaces the
  session, active or not, by a fresh one that is in progress, has no exercises and carries
  the new row's id. It fails only when the insert fails: then no row is added, the session
  is left as it was and an error message is set.
\<close>

theorem startWorkout_never_checks_session:
  "(sql_error e = None \<and> insertId e \<noteq> 0 \<longrightarrow>
      length (workouts (startWorkout e t h)) = length (workouts h) + 1
      \<and> error (startWorkout e t h) = None
      \<and> (\<exists>s. session (startWorkout e t h) = Some s \<and> exercises s = []
            \<and> status s = In_progress \<and> session_id s = Some (insertId e)))
   \<and> (sql_error e \<noteq> None \<or> insertId e = 0 \<longrightarrow>
        workouts (startWorkout e t h) = workouts h
        \<and> session (startWorkout e t h) = session h
        \<and> error (startWorkout e t h) \<noteq> None)"
proof (intro conjI impI)
  assume a: "sql_error e = None \<and> insertId e \<noteq> 0"
  then show "length (workouts (startWorkout e t h)) = length (workouts h) + 1"
    by (simp add: startWorkout_def WorkoutRepository_create_def Let_def saveToStorage_def
          startIntervals_def)
  from a show "error (startWorkout e t h) = None"
    by (simp add: startWorkout_def WorkoutRepository_create_def Let_def saveToStorage_def
          startIntervals_def)
  from a show "\<exists>s. session (startWorkout e t h) = Some s \<and> exercises s = []
            \<and> status s = In_progress \<and> session_id s = Some (insertId e)"
    using startWorkout_created[of e t h] by simp
next
  assume a: "sql_error e \<noteq> None \<or> insertId e = 0"
  then show "workouts (startWorkout e t h) = workouts h"
    and "session (startWorkout e t h) = session h"
    and "error (startWorkout e t h) \<noteq> None"
    by (auto simp add: startWorkout_def WorkoutRepository_create_def Let_def
          split: option.splits)
qed

theorem startWorkout_never_checks_session_witness:
  "sql_error later_env = None \<and> insertId later_env \<noteq> 0 \<and> isActive started
   \<and> length (workouts (startWorkout later_env None started)) = length (workouts started) + 1
   \<and> error (startWorkout later_env None started) = None
   \<and> (\<exists>s. session (startWorkout later_env None started) = Some s \<and> exercises s = []
         \<and> status s = In_progress \<and> session_id s = Some (insertId later_env))"
proof -
  have a: "sql_error later_env = None" and b: "insertId later_env \<noteq> 0"
    by (simp_all add: later_env_def test_env_def)
  have c: "isActive started" by (simp add: isActive_def fixture_defs action_defs)
  show ?thesis
    using a b c startWorkout_never_checks_session[of later_env None started] by simp
qed

section \<open>Recovery\<close>

lemma mount_empty: "session (mount e None rows) = None"
  by (simp add: mount_def recoverWorkout_def initial_def)

lemma mount_storage: "storage (mount e stor rows) = stor"
  by (simp add: mount_def recoverWorkout_def initial_def startIntervals_def Let_def
        split: option.splits snapshot.splits)

text \<open>
  C3, as stated, fails: the slot can hold a snapshot with the terminal status
  \<open>completed\<close> (here the one \<open>addExercise\<close> wrote on the finished workout); at startup
  \<open>recoverWorkout\<close> exposes it as the session and leaves it in the slot.
\<close>

theorem recover_completed_snapshot_counterexample:
  "kept_snapshot = Some (Saved done_session)
   \<and> status done_session = Completed
   \<and> session (mount later_env kept_snapshot []) = Some done_session
   \<and> storage (mount later_env kept_snapshot []) = Some (Saved done_session)"
  by (simp add: fixture_defs action_defs)

text \<open>
  C3, amended. At startup \<open>recoverWorkout\<close> exposes every stored snapshot that parses as
  the session, whatever its status; only for the status \<open>in_progress\<close> does it start the
  timers, and only then is \<open>isActive\<close> true. A snapshot that does not parse, an empty slot
  and a failing read leave no session. The slot itself is never changed.
\<close>

theorem recoverWorkout_any_status:
  "(storage_ok e \<longrightarrow>
      session (mount e (Some (Saved r)) rows) = Some r
      \<and> (isActive (mount e (Some (Saved r)) rows) \<longleftrightarrow> status r = In_progress)
      \<and> durationInterval (mount e (Some (Saved r)) rows)
          = (if status r = In_progress then Some r else None)
      \<and> autoSaveInterval (mount e (Some (Saved r)) rows)
          = (if status r = In_progress then Some r else None))
   \<and> session (mount e (Some Malformed) rows) = None
   \<and> session (mount e None rows) = None
   \<and> (\<not> storage_ok e \<longrightarrow> session (mount e stor rows) = None)
   \<and> storage (mount e stor rows) = stor"
proof (intro conjI impI)
  assume "storage_ok e"
  then show "session (mount e (Some (Saved r)) rows) = Some r"
    and "isActive (mount e (Some (Saved r)) rows) \<longleftrightarrow> status r = In_progress"
    and "durationInterval (mount e (Some (Saved r)) rows)
          = (if status r = In_progress then Some r else None)"
    and "autoSaveInterval (mount e (Some (Saved r)) rows)
          = (if status r = In_progress then Some r else None)"
    by (simp_all add: mount_def recoverWorkout_def initial_def startIntervals_def isActive_def
          Let_def)
next
  show "session (mount e (Some Malformed) rows) = None"
    by (simp add: mount_def recoverWorkout_def initial_def)
  show "session (mount e None rows) = None" by (rule mount_empty)
  show "storage (mount e stor rows) = stor" by (rule mount_storage)
next
  assume "\<not> storage_ok e"
  then show "session (mount e stor rows) = None"
    by (simp add: mount_def recoverWorkout_def initial_def)
qed

theorem recoverWorkout_any_status_witness:
  "storage_ok test_env \<and> status done_session \<noteq> In_progress
   \<and> session (mount test_env (Some (Saved done_session)) []) = Some done_session
   \<and> \<not> isActive (mount test_env (Some (Saved done_session)) [])
   \<and> durationInterval (mount test_env (Some (Saved done_session)) []) = None
   \<and> \<not> storage_ok storage_down
   \<and> session (mount storage_down (Some (Saved done_session)) []) = None"
proof -
  have a: "storage_ok test_env" by (simp add: test_env_def)
  have b: "status done_session \<noteq> In_progress" by (simp add: done_session_def)
  have c: "\<not> storage_ok storage_down" by (simp add: storage_down_def)
  show ?thesis
    using a b c recoverWorkout_any_status[of test_env done_session "[]"]
      recoverWorkout_any_status[of storage_down done_session "[]" "Some (Saved done_session)"]
    by simp
qed

section \<open>Pausing\<close>

text \<open>
  C4 fails on the code. The workout starts at 1000 ms; the duration tick at 11000 ms
  shows 10 s. The user pauses, and resumes 5 s later: the tick at 16000 ms shows 15 s,
  also when it fires before the resume. \<open>pauseWorkout\<close> records nothing: \<open>pausedTime\<close>
  stays unset and \<open>isPaused\<close> stays false.
\<close>

theorem pause_resume_keeps_accruing:
  "totalDuration (getStats (durationTick 11000 started)) = 10
   \<and> totalDuration (getStats (durationTick 16000
         (resumeWorkout (pauseWorkout (durationTick 11000 started))))) = 15
   \<and> totalDuration (getStats (durationTick 16000
         (pauseWorkout (durationTick 11000 started)))) = 15
   \<and> map_option pausedTime (session (pauseWorkout started)) = Some None
   \<and> map_option isPaused (session (pauseWorkout started)) = Some False
   \<and> map_option isPaused (durationInterval (pauseWorkout started)) = Some False"
  by (simp add: getStats_def durationTick_def pauseWorkout_def resumeWorkout_def
        fixture_defs action_defs)

section \<open>Validation of set data\<close>

text \<open>
  C5 fails on the code. On a workout with one exercise,
  \<open>completeSet(0, {reps: -3, weight: -5, rpe: 11})\<close> reports no error and appends the set
  as given. Only the session and the index are checked: \<open>completeSet(1, ..)\<close> and
  \<open>completeSet(-1, ..)\<close> set the error message and append nothing.
\<close>

theorem completeSet_accepts_invalid_values:
  "error (completeSet test_env 0 (set_data (Some (- 3)) (Some (- 5)) (Some 11)) with_push_up)
     = None
   \<and> map_option (map (map weight \<circ> sets) \<circ> exercises)
        (session (completeSet test_env 0 (set_data (Some (- 3)) (Some (- 5)) (Some 11))
                    with_push_up)) = Some [[Some (- 5)]]
   \<and> map_option (map (map reps \<circ> sets) \<circ> exercises)
        (session (completeSet test_env 0 (set_data (Some (- 3)) (Some (- 5)) (Some 11))
                    with_push_up)) = Some [[Some (- 3)]]
   \<and> map_option (map (map rpe \<circ> sets) \<circ> exercises)
        (session (completeSet test_env 0 (set_data (Some (- 3)) (Some (- 5)) (Some 11))
                    with_push_up)) = Some [[Some 11]]
   \<and> error (completeSet test_env 1 (set_data (Some 10) (Some 50) None) with_push_up)
       = Some ''Invalid exercise or session''
   \<and> session (completeSet test_env 1 (set_data (Some 10) (Some 50) None) with_push_up)
       = session with_push_up
   \<and> error (completeSet test_env (- 1) (set_data (Some 10) (Some 50) None) with_push_up)
       = Some ''Invalid exercise or session''
   \<and> session (completeSet test_env (- 1) (set_data (Some 10) (Some 50) None) with_push_up)
       = session with_push_up"
  by (simp add: fixture_defs action_defs)

section \<open>Clearing the snapshot\<close>

lemma completeWorkout_keeps_empty_slot:
  "storage h = None \<Longrightarrow> storage (completeWorkout e nts h) = None"
  by (simp add: completeWorkout_def Let_def clearStorage_def stopIntervals_def
        split: option.splits prod.splits sum.splits)

lemma completeWorkout_cleared:
  assumes "session h = Some s" and "session_id s = Some i" and "i \<noteq> 0"
    and "sql_error e = None" and "storage_ok e"
  shows "storage (completeWorkout e nts h) = None"
    and "\<exists>s'. session (completeWorkout e nts h) = Some s' \<and> status s' = Completed"
  using assms
  by (simp_all add: completeWorkout_def session_with_id_def WorkoutRepository_update_def
        Let_def clearStorage_def stopIntervals_def)

lemma cancelWorkout_cleared:
  assumes "session h = Some s" and "session_id s = Some i" and "i \<noteq> 0"
    and "sql_error e = None" and "storage_ok e"
  shows "storage (cancelWorkout e h) = None" and "session (cancelWorkout e h) = None"
  using assms
  by (simp_all add: cancelWorkout_def session_with_id_def WorkoutRepository_update_def
        Let_def clearStorage_def stopIntervals_def)

text \<open>
  C6, as stated, fails: when \<open>AsyncStorage.removeItem\<close> rejects, \<open>clearStorage\<close> logs and
  goes on. The workout is completed in the session and in the Record Store, the snapshot
  stays in the slot, and the next start recovers it as a workout in progress.
\<close>

theorem completeWorkout_storage_down_counterexample:
  "isActive started
   \<and> map_option status (session (completeWorkout storage_down None started)) = Some Completed
   \<and> map workout_status (workouts (completeWorkout storage_down None started)) = [Completed]
   \<and> storage (completeWorkout storage_down None started) \<noteq> None
   \<and> isActive (mount test_env (storage (completeWorkout storage_down None started))
                  (workouts (completeWorkout storage_down None started)))"
  by (simp add: isActive_def fixture_defs action_defs)

lemma completeWorkout_rejected_removal:
  "\<not> storage_ok e \<Longrightarrow> storage (completeWorkout e nts h) = storage h"
  by (simp add: completeWorkout_def Let_def clearStorage_def stopIntervals_def
        split: option.splits prod.splits sum.splits)

lemma cancelWorkout_rejected_removal:
  "\<not> storage_ok e \<Longrightarrow> storage (cancelWorkout e h) = storage h"
  by (simp add: cancelWorkout_def Let_def clearStorage_def stopIntervals_def
        split: option.splits prod.splits sum.splits)

lemma completeWorkout_completes:
  assumes "session h = Some s" and "session_id s = Some i" and "i \<noteq> 0"
    and "sql_error e = None"
  shows "\<exists>s'. session (completeWorkout e nts h) = Some s' \<and> status s' = Completed"
  using assms
  by (simp add: completeWorkout_def session_with_id_def WorkoutRepository_update_def
        Let_def clearStorage_def stopIntervals_def)

lemma cancelWorkout_drops_session:
  assumes "session h = Some s" and "session_id s = Some i" and "i \<noteq> 0"
    and "sql_error e = None"
  shows "session (cancelWorkout e h) = None"
  using assms
  by (simp add: cancelWorkout_def session_with_id_def WorkoutRepository_update_def
        Let_def clearStorage_def stopIntervals_def)

text \<open>
  C6, amended. For a session that has an id, when the Record Store update and the
  removal from \<open>AsyncStorage\<close> succeed, \<open>completeWorkout\<close> leaves the session completed and
  the slot empty, so a hook mounted afterwards recovers no session; calling
  \<open>completeWorkout\<close> again, whatever the stores answer, leaves the slot empty and the next
  mount without a session. \<open>cancelWorkout\<close> under the same conditions empties the slot and
  drops the session. A rejected removal is caught and logged, not retried: whenever the
  removal rejects, \<open>completeWorkout\<close> and \<open>cancelWorkout\<close> leave the slot as it was, also
  when the Record Store update went through and the session is completed or dropped.
\<close>

theorem completeWorkout_clears_snapshot:
  assumes "session h = Some s" and "session_id s = Some i" and "i \<noteq> 0"
    and "sql_error e = None" and "storage_ok e"
  shows "storage (completeWorkout e nts h) = None
   \<and> (\<exists>s'. session (completeWorkout e nts h) = Some s' \<and> status s' = Completed)
   \<and> session (mount e1 (storage (completeWorkout e nts h)) rows1) = None
   \<and> storage (completeWorkout e2 nts2 (completeWorkout e nts h)) = None
   \<and> session (mount e3 (storage (completeWorkout e2 nts2 (completeWorkout e nts h))) rows3)
       = None
   \<and> storage (cancelWorkout e h) = None
   \<and> session (cancelWorkout e h) = None
   \<and> session (mount e1 (storage (cancelWorkout e h)) rows1) = None
   \<and> (\<not> storage_ok e4 \<longrightarrow>
        storage (completeWorkout e4 nts4 h4) = storage h4
        \<and> storage (cancelWorkout e4 h4) = storage h4)
   \<and> (sql_error e5 = None \<and> \<not> storage_ok e5 \<longrightarrow>
        (\<exists>s'. session (completeWorkout e5 nts5 h) = Some s' \<and> status s' = Completed)
        \<and> storage (completeWorkout e5 nts5 h) = storage h
        \<and> session (cancelWorkout e5 h) = None
        \<and> storage (cancelWorkout e5 h) = storage h)"
proof -
  have c: "storage (completeWorkout e nts h) = None"
    by (rule completeWorkout_cleared(1)[OF assms])
  have c2: "storage (completeWorkout e2 nts2 (completeWorkout e nts h)) = None"
    by (rule completeWorkout_keeps_empty_slot[OF c])
  have k: "storage (cancelWorkout e h) = None"
    by (rule cancelWorkout_cleared(1)[OF assms])
  have first: "storage (completeWorkout e nts h) = None
   \<and> (\<exists>s'. session (completeWorkout e nts h) = Some s' \<and> status s' = Completed)
   \<and> session (mount e1 (storage (completeWorkout e nts h)) rows1) = None
   \<and> storage (completeWorkout e2 nts2 (completeWorkout e nts h)) = None
   \<and> session (mount e3 (storage (completeWorkout e2 nts2 (completeWorkout e nts h))) rows3)
       = None
   \<and> storage (cancelWorkout e h) = None
   \<and> session (cancelWorkout e h) = None
   \<and> session (mount e1 (storage (cancelWorkout e h)) rows1) = None"
    using c c2 k completeWorkout_cleared(2)[OF assms, of nts] cancelWorkout_cleared(2)[OF assms]
    by (simp add: mount_empty)
  have stays: "\<not> storage_ok e4 \<longrightarrow>
        storage (completeWorkout e4 nts4 h4) = storage h4
        \<and> storage (cancelWorkout e4 h4) = storage h4"
    using completeWorkout_rejected_removal cancelWorkout_rejected_removal by blast
  have stuck: "sql_error e5 = None \<and> \<not> storage_ok e5 \<longrightarrow>
        (\<exists>s'. session (completeWorkout e5 nts5 h) = Some s' \<and> status s' = Completed)
        \<and> storage (completeWorkout e5 nts5 h) = storage h
        \<and> session (cancelWorkout e5 h) = None
        \<and> storage (cancelWorkout e5 h) = storage h"
    using completeWorkout_completes[OF assms(1,2,3), of e5 nts5]
      cancelWorkout_drops_session[OF assms(1,2,3), of e5]
      completeWorkout_rejected_removal[of e5 nts5 h] cancelWorkout_rejected_removal[of e5 h]
    by blast
  show ?thesis using first stays stuck by blast
qed

theorem completeWorkout_clears_snapshot_witness:
  "(\<exists>s. session started = Some s \<and> session_id s = Some 1)
   \<and> (1::int) \<noteq> 0 \<and> sql_error test_env = None \<and> storage_ok test_env
   \<and> storage started \<noteq> None
   \<and> storage (completeWorkout test_env None started) = None
   \<and> session (mount later_env (storage (completeWorkout test_env None started)) []) = None
   \<and> storage (completeWorkout later_env None (completeWorkout test_env None started)) = None
   \<and> storage (cancelWorkout test_env started) = None
   \<and> session (cancelWorkout test_env started) = None
   \<and> sql_error storage_down = None \<and> \<not> storage_ok storage_down
   \<and> (\<exists>s'. session (completeWorkout storage_down None started) = Some s'
         \<and> status s' = Completed)
   \<and> storage (completeWorkout storage_down None started) = storage started
   \<and> session (cancelWorkout storage_down started) = None
   \<and> storage (cancelWorkout storage_down started) = storage started"
proof -
  obtain s where s: "session started = Some s" "session_id s = Some 1"
    using started_session by blast
  have a: "sql_error test_env = None" and b: "storage_ok test_env"
    by (simp_all add: test_env_def)
  have d: "sql_error storage_down = None" and n: "\<not> storage_ok storage_down"
    by (simp_all add: storage_down_def test_env_def)
  have o: "(1::int) \<noteq> 0" by simp
  have st: "storage started \<noteq> None" by (simp add: fixture_defs action_defs)
  have ex: "\<exists>s. session started = Some s \<and> session_id s = Some 1" using s by blast
  show ?thesis
    using ex a b d n st
      completeWorkout_clears_snapshot[OF s o a b, of None later_env "[]" later_env None
        later_env "[]" storage_down None started storage_down None]
    by (simp add: mount_empty)
qed

section \<open>The suggestion scorer\<close>

lemma slice0_subset: "set (slice0 limit xs) \<subseteq> set xs"
  by (simp add: slice0_def set_take_subset)

lemma predicted_not_in_session:
  assumes "x \<in> set (predictedExercises (predictExercises e (Some cur) limit p))"
  shows "exercise_id x \<notin> set (exerciseIds cur)"
proof (cases "ExerciseRepository_findAll e")
  case (Inl err)
  then show ?thesis using assms by (simp add: predictExercises_def)
next
  case (Inr allExercises)
  then have "x \<in> fst ` set (slice0 limit (sortByScore (scoredExercises cur allExercises)))"
    using assms by (simp add: predictExercises_def)
  then have "x \<in> fst ` set (sortByScore (scoredExercises cur allExercises))"
    using slice0_subset by fastforce
  then have "x \<in> set (availableExercises cur allExercises)"
    by (auto simp add: sortByScore_def scoredExercises_def)
  then show ?thesis by (simp add: availableExercises_def)
qed

lemma scoreExercise_empty_session:
  "scoreExercise [] ex =
     (case muscle_groups ex of
        None \<Rightarrow> 1
      | Some gs \<Rightarrow> (if isCompoundMovement (exercise_name ex) then 10 else 0)
                   + (if isPopularExercise (exercise_name ex) then 2 else 0))"
  by (simp add: scoreExercise_def split: option.splits)

lemma sortByScore_descending: "sorted (map (\<lambda>item. - snd item) (sortByScore xs))"
  by (simp add: sortByScore_def sorted_sort_key)

lemma sortByScore_higher_first:
  assumes "i < length (sortByScore xs)" and "j < length (sortByScore xs)"
    and "snd (sortByScore xs ! j) < snd (sortByScore xs ! i)"
  shows "i < j"
proof (rule ccontr)
  assume "\<not> i < j"
  then have "j \<le> i" by simp
  then have "map (\<lambda>item. - snd item) (sortByScore xs) ! j
               \<le> map (\<lambda>item. - snd item) (sortByScore xs) ! i"
    using sorted_nth_mono[OF sortByScore_descending, of j i xs] assms(1) by simp
  then show False using assms by simp
qed

lemma sortByScore_stable:
  "filter (\<lambda>item. snd item = k) (sortByScore xs) = filter (\<lambda>item. snd item = k) xs"
  using sort_key_stable[of "\<lambda>item. - snd item" "- k" xs] by (simp add: sortByScore_def)

lemma fixture_names:
  "isCompoundMovement (exercise_name squat)" "isCompoundMovement (exercise_name push_up)"
  "isCompoundMovement (exercise_name bad_squat)"
  "\<not> isCompoundMovement (exercise_name plank)" "\<not> isCompoundMovement (exercise_name bad_plank)"
  "\<not> isPopularExercise (exercise_name squat)" "isPopularExercise (exercise_name push_up)"
  "\<not> isPopularExercise (exercise_name plank)" "\<not> isPopularExercise (exercise_name bad_plank)"
  by (simp_all add: squat_def plank_def push_up_def bad_squat_def bad_plank_def
        isCompoundMovement_def compoundKeywords_def toLowerCase_def lower_char_def
        str_includes_def sublist_Cons_right isPopularExercise_def popularExercises_def)

lemma fixture_scores:
  "scoreExercise [] squat = 10" "scoreExercise [] plank = 0" "scoreExercise [] push_up = 12"
  "scoreExercise [] bad_squat = 1" "scoreExercise [] bad_plank = 1"
  using fixture_names
  by (simp_all add: scoreExercise_empty_session)
    (simp_all add: squat_def plank_def push_up_def bad_squat_def bad_plank_def)

lemma fixture_scores_after_push_up:
  "scoreExercise [newExerciseSession test_env push_up no_options 0] squat = 3"
  "scoreExercise [newExerciseSession test_env push_up no_options 0] plank = 0"
  using fixture_names
  by (simp_all add: scoreExercise_def getBalanceScore_def complementaryPairs_def
        getWorkoutPatternScore_def currentMuscleGroups_def upperBodyGroups_def
        lowerBodyGroups_def newExerciseSession_def squat_def plank_def push_up_def)

lemma fixture_ids:
  "exercise_id squat = 2" "exercise_id plank = 3" "exercise_id push_up = 1"
  "exercise_id bad_plank = 4" "exercise_id bad_squat = 5"
  by (simp_all add: squat_def plank_def push_up_def bad_squat_def bad_plank_def)

lemmas ranking_defs =
  predictExercises_def ExerciseRepository_findAll_def scoredExercises_def
  availableExercises_def exerciseIds_def sortByScore_def slice0_def

text \<open>
  C9, as stated, fails: two candidates whose \<open>muscle_groups\<close> column does not parse both
  score \<open>1\<close>, the compound \<open>Squat\<close> like the non-compound, non-popular \<open>Plank\<close>; with
  the catalog in name order and \<open>limit = 1\<close> the only suggestion is \<open>Plank\<close>.
\<close>

theorem compound_tie_counterexample:
  "isCompoundMovement (exercise_name bad_squat)
   \<and> \<not> isCompoundMovement (exercise_name bad_plank)
   \<and> \<not> isPopularExercise (exercise_name bad_plank)
   \<and> scoreExercise [] bad_squat = 1
   \<and> scoreExercise [] bad_plank = 1
   \<and> \<not> scoreExercise [] bad_plank < scoreExercise [] bad_squat
   \<and> catalog bad_env = [bad_plank, bad_squat]
   \<and> predictedExercises (predictExercises bad_env (Some []) 1 no_prediction) = [bad_plank]"
  using fixture_names
  by (simp add: fixture_scores ranking_defs bad_env_def test_env_def no_prediction_def)

text \<open>
  C9, amended. An exercise whose id is in the session never appears among the
  suggestions. For a session with no exercises, a candidate whose name matches a compound
  keyword scores strictly higher than a candidate that is neither compound nor popular,
  unless the \<open>muscle_groups\<close> of both fail to parse (then both score \<open>1\<close>). The candidates
  are the catalog rows not in the session, in catalog order; for a limit \<open>K \<ge> 0\<close> the
  output is the first \<open>K\<close> of them after sorting by descending score, a higher score
  always coming first and equal scores staying in catalog order.
\<close>

theorem predictExercises_ranking:
  "(\<forall>x \<in> set (predictedExercises (predictExercises e (Some cur) limit p)).
       exercise_id x \<notin> set (exerciseIds cur))
   \<and> (isCompoundMovement (exercise_name c) \<and> \<not> isCompoundMovement (exercise_name d)
        \<and> \<not> isPopularExercise (exercise_name d)
        \<and> (muscle_groups c \<noteq> None \<or> muscle_groups d \<noteq> None)
       \<longrightarrow> scoreExercise [] d < scoreExercise [] c)
   \<and> (muscle_groups c = None \<and> muscle_groups d = None
       \<longrightarrow> scoreExercise [] c = 1 \<and> scoreExercise [] d = 1)
   \<and> map fst (scoredExercises cur allExercises)
       = filter (\<lambda>ex. exercise_id ex \<notin> set (exerciseIds cur)) allExercises
   \<and> (\<forall>item \<in> set (scoredExercises cur allExercises). snd item = scoreExercise cur (fst item))
   \<and> (ExerciseRepository_findAll e = Inr allExercises \<and> 0 \<le> limit \<longrightarrow>
        predictedExercises (predictExercises e (Some cur) limit p)
          = map fst (take (nat limit) (sortByScore (scoredExercises cur allExercises))))
   \<and> sorted (map (\<lambda>item. - snd item) (sortByScore (scoredExercises cur allExercises)))
   \<and> (\<forall>i j. i < length (sortByScore (scoredExercises cur allExercises))
          \<and> j < length (sortByScore (scoredExercises cur allExercises))
          \<and> snd (sortByScore (scoredExercises cur allExercises) ! j)
              < snd (sortByScore (scoredExercises cur allExercises) ! i)
          \<longrightarrow> i < j)
   \<and> (\<forall>k. filter (\<lambda>item. snd item = k) (sortByScore (scoredExercises cur allExercises))
            = filter (\<lambda>item. snd item = k) (scoredExercises cur allExercises))"
proof (intro conjI)
  show "\<forall>x \<in> set (predictedExercises (predictExercises e (Some cur) limit p)).
          exercise_id x \<notin> set (exerciseIds cur)"
    using predicted_not_in_session by blast
  show "isCompoundMovement (exercise_name c) \<and> \<not> isCompoundMovement (exercise_name d)
        \<and> \<not> isPopularExercise (exercise_name d)
        \<and> (muscle_groups c \<noteq> None \<or> muscle_groups d \<noteq> None)
       \<longrightarrow> scoreExercise [] d < scoreExercise [] c"
    by (auto simp add: scoreExercise_empty_session split: option.splits)
  show "muscle_groups c = None \<and> muscle_groups d = None
       \<longrightarrow> scoreExercise [] c = 1 \<and> scoreExercise [] d = 1"
    by (simp add: scoreExercise_empty_session)
  show "map fst (scoredExercises cur allExercises)
       = filter (\<lambda>ex. exercise_id ex \<notin> set (exerciseIds cur)) allExercises"
    by (simp add: scoredExercises_def availableExercises_def comp_def)
  show "\<forall>item \<in> set (scoredExercises cur allExercises). snd item = scoreExercise cur (fst item)"
    by (auto simp add: scoredExercises_def)
  show "ExerciseRepository_findAll e = Inr allExercises \<and> 0 \<le> limit \<longrightarrow>
        predictedExercises (predictExercises e (Some cur) limit p)
          = map fst (take (nat limit) (sortByScore (scoredExercises cur allExercises)))"
    by (simp add: predictExercises_def slice0_def)
  show "sorted (map (\<lambda>item. - snd item) (sortByScore (scoredExercises cur allExercises)))"
    by (rule sortByScore_descending)
  show "\<forall>i j. i < length (sortByScore (scoredExercises cur allExercises))
          \<and> j < length (sortByScore (scoredExercises cur allExercises))
          \<and> snd (sortByScore (scoredExercises cur allExercises) ! j)
              < snd (sortByScore (scoredExercises cur allExercises) ! i)
          \<longrightarrow> i < j"
    using sortByScore_higher_first by blast
  show "\<forall>k. filter (\<lambda>item. snd item = k) (sortByScore (scoredExercises cur allExercises))
            = filter (\<lambda>item. snd item = k) (scoredExercises cur allExercises)"
    using sortByScore_stable by blast
qed

theorem predictExercises_ranking_witness:
  "isCompoundMovement (exercise_name squat) \<and> \<not> isCompoundMovement (exercise_name plank)
   \<and> \<not> isPopularExercise (exercise_name plank) \<and> muscle_groups squat \<noteq> None
   \<and> scoreExercise [] plank < scoreExercise [] squat
   \<and> ExerciseRepository_findAll test_env = Inr [squat, plank, push_up] \<and> (0::int) \<le> 3
   \<and> predictedExercises (predictExercises test_env (Some []) 3 no_prediction)
       = [push_up, squat, plank]
   \<and> map snd (sortByScore (scoredExercises [] [squat, plank, push_up])) = [12, 10, 0]
   \<and> exerciseIds [newExerciseSession test_env push_up no_options 0] = [1]
   \<and> predictedExercises
        (predictExercises test_env (Some [newExerciseSession test_env push_up no_options 0])
           3 no_prediction) = [squat, plank]
   \<and> 1 \<notin> set (map exercise_id (predictedExercises
        (predictExercises test_env (Some [newExerciseSession test_env push_up no_options 0])
           3 no_prediction)))"
proof -
  let ?cur = "[newExerciseSession test_env push_up no_options 0]"
  have names: "isCompoundMovement (exercise_name squat)"
      "\<not> isCompoundMovement (exercise_name plank)"
      "\<not> isPopularExercise (exercise_name plank)" "muscle_groups squat \<noteq> None"
    using fixture_names by (simp_all add: squat_def)
  have all: "ExerciseRepository_findAll test_env = Inr [squat, plank, push_up]"
    by (simp add: ExerciseRepository_findAll_def test_env_def)
  have ids: "exerciseIds ?cur = [1]"
    by (simp add: exerciseIds_def newExerciseSession_def push_up_def)
  have lt: "scoreExercise [] plank < scoreExercise [] squat"
    using names predictExercises_ranking[of test_env "[]" 3 no_prediction squat plank
        "[squat, plank, push_up]"]
    by blast
  have top: "predictedExercises (predictExercises test_env (Some []) 3 no_prediction)
       = [push_up, squat, plank]"
    using all predictExercises_ranking[of test_env "[]" 3 no_prediction squat plank
        "[squat, plank, push_up]"]
    by (simp add: fixture_scores ranking_defs)
  have scores: "map snd (sortByScore (scoredExercises [] [squat, plank, push_up])) = [12, 10, 0]"
    by (simp add: fixture_scores ranking_defs)
  have rest: "predictedExercises (predictExercises test_env (Some ?cur) 3 no_prediction)
       = [squat, plank]"
    using all
    by (simp add: predictExercises_def scoredExercises_def availableExercises_def ids
        sortByScore_def slice0_def fixture_scores_after_push_up fixture_ids no_prediction_def)
  have excl: "1 \<notin> set (map exercise_id (predictedExercises
                 (predictExercises test_env (Some ?cur) 3 no_prediction)))"
    using ids predictExercises_ranking[of test_env ?cur 3 no_prediction squat plank
        "[squat, plank, push_up]"]
    by auto
  have three: "(0::int) \<le> 3" by simp
  show ?thesis
    by (intro conjI) (fact names all ids lt top scores rest excl three)+
qed


end
